theory Spec2Isabelle
  imports Main
begin

section \<open>The host environment\<close>

text \<open>
  The module \<^verbatim>\<open>src/client/findBinary.ts\<close> talks to Node's \<^verbatim>\<open>path\<close>, \<^verbatim>\<open>fs\<close>,
  \<^verbatim>\<open>os\<close> and \<^verbatim>\<open>child_process\<close> modules, to \<^verbatim>\<open>require.resolve\<close>, to
  \<^verbatim>\<open>JSON.parse\<close> and \<^verbatim>\<open>String.prototype.trim\<close>, to the editor's \<^verbatim>\<open>workspace\<close>
  object and to \<^verbatim>\<open>validateSafeBinaryPath\<close>. None of these is code of the module, so
  each one is a field of the record \<open>host\<close>. A call that can throw returns \<open>None\<close> where
  it throws (\<open>False\<close> for the existence check, whose value is never used), the promise of
  \<^verbatim>\<open>workspace.findFiles\<close> is fulfilled or rejected, and paths are the strings the source
  passes around. The functions of \<^verbatim>\<open>path\<close>, \<^verbatim>\<open>os.homedir\<close> and the validator are
  taken to return.
\<close>

datatype platform = Win32 | Posix

text \<open>
  A value that \<^verbatim>\<open>JSON.parse\<close> returns. An object is the list of its own properties,
  each key once. Of a number the code can only see whether it is truthy, so a number is
  that bit: \<open>False\<close> for zero.
\<close>

datatype json =
    JNull
  | JBool bool
  | JNumber bool
  | JString string
  | JArray "json list"
  | JObject "(string \<times> json) list"

text \<open>A promise, by the way it settles.\<close>

datatype 'a promise = Fulfilled 'a | Rejected

text \<open>What \<^verbatim>\<open>spawnSync\<close> returns; \<open>status\<close> is \<^verbatim>\<open>null\<close> when a signal ended the child.\<close>

record spawn_return =
  error :: bool
  status :: "int option"
  stdout :: string

text \<open>
  \<open>inherited v k\<close> tells whether the prototype chain of the value \<open>v\<close> (not \<open>v\<close>
  itself) has a property named \<open>k\<close>, as \<^verbatim>\<open>Object.prototype\<close> has \<^verbatim>\<open>toString\<close> and
  \<^verbatim>\<open>constructor\<close>; what is found there is a function or an object. \<open>findFiles\<close> is
  the promise of the \<^verbatim>\<open>fsPath\<close>s that the search for \<^verbatim>\<open>**/package.json\<close> outside
  \<^verbatim>\<open>**/node_modules/**\<close> finds.
\<close>

record host =
  platform :: platform
  dirname :: "string \<Rightarrow> string"
  join :: "string list \<Rightarrow> string"
  resolve :: "string \<Rightarrow> string \<Rightarrow> string"
  isAbsolute :: "string \<Rightarrow> bool"
  normalize :: "string \<Rightarrow> string"
  readFileSync :: "string \<Rightarrow> string option"
  JSON_parse :: "string \<Rightarrow> json option"
  inherited :: "json \<Rightarrow> string \<Rightarrow> bool"
  trim :: "string \<Rightarrow> string"
  stat :: "string \<Rightarrow> bool"
  require_resolve :: "string \<Rightarrow> string list \<Rightarrow> string option"
  workspaceFolders :: "string list option"
  isTrusted :: bool
  findFiles :: "string list promise"
  validateSafeBinaryPath :: "string \<Rightarrow> bool"
  spawnSync :: "string \<Rightarrow> string list \<Rightarrow> spawn_return option"
  homedir :: string

text \<open>
  The exceptions: the two errors that the manifest walk throws itself, the
  \<^verbatim>\<open>SyntaxError\<close> of \<^verbatim>\<open>JSON.parse\<close>, the \<^verbatim>\<open>TypeError\<close> of reading a property of
  \<^verbatim>\<open>null\<close> and of \<^verbatim>\<open>path.resolve\<close> on an argument that is not a string, the failure
  of \<^verbatim>\<open>require.resolve\<close>, and the rejection of \<^verbatim>\<open>workspace.findFiles\<close>.
\<close>

datatype exn =
    ManifestNotFound string
  | BinEntryNotFound string
  | JsonSyntaxError
  | TypeError
  | ModuleNotFound
  | SearchFailed

text \<open>
  The calls a locator makes to the editor, the validator, the module resolver and the
  process spawner, in the order in which it issues them.
\<close>

datatype event =
    RequireResolve string "string list"
  | Stat string
  | FindFiles
  | Validate string
  | Spawn string "string list"

section \<open>replaceTargetFromMainToBin\<close>

text \<open>The decimal numeral of a natural number, the name of an array index.\<close>

function decimal :: "nat \<Rightarrow> string" where
  "decimal n =
     (if n < 10 then [char_of (48 + n)]
      else decimal (n div 10) @ [char_of (48 + n mod 10)])"
  by pat_completeness auto
termination
  by (relation "measure id") auto

declare decimal.simps [simp del]

text \<open>
  The own properties of a value whose property is read with a computed name: those of an
  object, the indices and the length of an array, none for a number or a boolean.
\<close>

definition ownProperty :: "json \<Rightarrow> string \<Rightarrow> json option" where
  "ownProperty v k =
     (case v of
        JObject props \<Rightarrow> map_of props k
      | JArray xs \<Rightarrow>
          if k = ''length'' then Some (JNumber (xs \<noteq> []))
          else map_of (zip (map decimal [0..<length xs]) xs) k
      | _ \<Rightarrow> None)"

text \<open>
  What a property read gives: \<^verbatim>\<open>undefined\<close>, a value of the parsed document, or the
  function or object found on the prototype chain.
\<close>

datatype jsval = Undefined | Value json | Inherited

text \<open>
  \<^verbatim>\<open>packageJson.bin\<close>. Reading a property of \<^verbatim>\<open>null\<close> throws. No prototype of the
  language has a property named \<^verbatim>\<open>bin\<close>, so the read finds an own property of an
  object or nothing.
\<close>

definition binOf :: "json \<Rightarrow> exn + json option" where
  "binOf packageJson =
     (case packageJson of
        JNull \<Rightarrow> Inl TypeError
      | JObject props \<Rightarrow> Inr (map_of props ''bin'')
      | _ \<Rightarrow> Inr None)"

text \<open>
  \<^verbatim>\<open>typeof bin === "string" ? bin : bin?.[binaryName]\<close>. The optional chain gives
  \<^verbatim>\<open>undefined\<close> for a \<^verbatim>\<open>bin\<close> that is missing or \<^verbatim>\<open>null\<close>; for any other value the
  read looks at the own properties first and at the prototype chain then.
\<close>

definition binEntry :: "host \<Rightarrow> json option \<Rightarrow> string \<Rightarrow> jsval" where
  "binEntry h bin binaryName =
     (case bin of
        None \<Rightarrow> Undefined
      | Some JNull \<Rightarrow> Undefined
      | Some (JString s) \<Rightarrow> Value (JString s)
      | Some v \<Rightarrow>
          (case ownProperty v binaryName of
             Some entry \<Rightarrow> Value entry
           | None \<Rightarrow> if inherited h v binaryName then Inherited else Undefined))"

text \<open>The test \<^verbatim>\<open>if (!binEntry)\<close>: what JavaScript takes for true.\<close>

definition truthyValue :: "jsval \<Rightarrow> bool" where
  "truthyValue v =
     (case v of
        Undefined \<Rightarrow> False
      | Inherited \<Rightarrow> True
      | Value JNull \<Rightarrow> False
      | Value (JBool b) \<Rightarrow> b
      | Value (JNumber nonZero) \<Rightarrow> nonZero
      | Value (JString s) \<Rightarrow> s \<noteq> []
      | Value (JArray xs) \<Rightarrow> True
      | Value (JObject props) \<Rightarrow> True)"

text \<open>The same test on a string that may be \<^verbatim>\<open>undefined\<close>.\<close>

definition truthy :: "string option \<Rightarrow> bool" where
  "truthy v = (case v of None \<Rightarrow> False | Some s \<Rightarrow> s \<noteq> [])"

text \<open>
  The body of the loop once \<^verbatim>\<open>readFileSync\<close> has returned \<open>rawContent\<close> for the
  directory \<open>dir\<close>: nothing after this point goes back to the loop, and nothing here is
  inside a \<^verbatim>\<open>try\<close>. \<^verbatim>\<open>path.resolve\<close> throws on an entry that is not a string.
\<close>

definition readManifest :: "host \<Rightarrow> string \<Rightarrow> string \<Rightarrow> string \<Rightarrow> exn + string" where
  "readManifest h dir rawContent binaryName =
     (case JSON_parse h rawContent of
        None \<Rightarrow> Inl JsonSyntaxError
      | Some packageJson \<Rightarrow>
          (case binOf packageJson of
             Inl e \<Rightarrow> Inl e
           | Inr bin \<Rightarrow>
               if \<not> truthyValue (binEntry h bin binaryName)
               then Inl (BinEntryNotFound binaryName)
               else (case binEntry h bin binaryName of
                       Value (JString s) \<Rightarrow> Inr (resolve h dir s)
                     | _ \<Rightarrow> Inl TypeError)))"

text \<open>
  The loop \<^verbatim>\<open>while (dir !== path.dirname(dir))\<close>. It ends only because \<^verbatim>\<open>path.dirname\<close>
  reaches a fixed point, which is a property of the host, so the loop is a partial function:
  \<open>None\<close> is a walk that never ends.
\<close>

partial_function (option) walkUp :: "host \<Rightarrow> string \<Rightarrow> string \<Rightarrow> (exn + string) option" where
  "walkUp h dir binaryName =
     (if dir = dirname h dir then Some (Inl (ManifestNotFound binaryName))
      else case readFileSync h (join h [dir, ''package.json'']) of
          None \<Rightarrow> walkUp h (dirname h dir) binaryName
        | Some rawContent \<Rightarrow> Some (readManifest h dir rawContent binaryName))"

definition replaceTargetFromMainToBin :: "host \<Rightarrow> string \<Rightarrow> string \<Rightarrow> (exn + string) option" where
  "replaceTargetFromMainToBin h resolvedPath binaryName =
     walkUp h (dirname h resolvedPath) binaryName"

text \<open>
  The \<open>k\<close>-th directory of the walk that starts at the file \<open>resolvedPath\<close>, and the
  host property that makes every walk end.
\<close>

definition ancestor :: "host \<Rightarrow> string \<Rightarrow> nat \<Rightarrow> string" where
  "ancestor h resolvedPath k = (dirname h ^^ k) (dirname h resolvedPath)"

definition isRoot :: "host \<Rightarrow> string \<Rightarrow> bool" where
  "isRoot h dir = (dir = dirname h dir)"

definition manifestAt :: "host \<Rightarrow> string \<Rightarrow> string option" where
  "manifestAt h dir = readFileSync h (join h [dir, ''package.json''])"

definition dirnameReachesRoot :: "host \<Rightarrow> bool" where
  "dirnameReachesRoot h = (\<forall>p. \<exists>n. isRoot h ((dirname h ^^ n) p))"

section \<open>searchNodeModulesDefaultBinPath\<close>

definition candidates :: "host \<Rightarrow> string \<Rightarrow> string list \<Rightarrow> string list" where
  "candidates h binaryName folders =
     concat (map (\<lambda>folder.
        let basePath = join h [folder, ''.bin'', binaryName]
        in if platform h = Win32 then [basePath, basePath @ ''.exe''] else [basePath]) folders)"

text \<open>
  \<^verbatim>\<open>Promise.all\<close> over callbacks that finish in the order \<open>order\<close> (a list of indices):
  each completion stores its value in the slot of its own index.
\<close>

definition Promise_all :: "nat list \<Rightarrow> 'a list \<Rightarrow> 'a option list" where
  "Promise_all order vals =
     fold (\<lambda>i slots. slots[i := Some (vals ! i)]) order (replicate (length vals) None)"

definition completionOrder :: "nat \<Rightarrow> nat list \<Rightarrow> bool" where
  "completionOrder n order = (distinct order \<and> set order = {0..<n})"

text \<open>\<^verbatim>\<open>Array.prototype.findIndex\<close>: the first index that satisfies the test, or \<open>-1\<close>.\<close>

fun findIndex :: "('a \<Rightarrow> bool) \<Rightarrow> 'a list \<Rightarrow> int" where
  "findIndex P [] = - 1"
| "findIndex P (x # xs) =
     (if P x then 0 else (let r = findIndex P xs in if r = - 1 then - 1 else r + 1))"

definition searchNodeModulesDefaultBinPath ::
    "host \<Rightarrow> nat list \<Rightarrow> string \<Rightarrow> string list \<Rightarrow> string option \<times> event list" where
  "searchNodeModulesDefaultBinPath h order binaryName folders =
     (let cands = candidates h binaryName folders;
          exists = Promise_all order (map (stat h) cands);
          firstExistingCandidateIndex = findIndex (\<lambda>slot. slot = Some True) exists
      in (if firstExistingCandidateIndex = - 1 then None
          else Some (cands ! nat firstExistingCandidateIndex),
          map Stat cands))"

text \<open>
  Following the words of the specification: one candidate \<^verbatim>\<open><baseDir>/.bin/<binaryName>\<close>
  for each base directory, on Windows followed by the same path with \<^verbatim>\<open>.exe\<close> appended,
  and the first of them, in this order, that exists.
\<close>

fun specCandidates :: "host \<Rightarrow> string \<Rightarrow> string list \<Rightarrow> string list" where
  "specCandidates h binaryName [] = []"
| "specCandidates h binaryName (baseDir # rest) =
     (if platform h = Win32
      then join h [baseDir, ''.bin'', binaryName]
           # (join h [baseDir, ''.bin'', binaryName] @ ''.exe'')
           # specCandidates h binaryName rest
      else join h [baseDir, ''.bin'', binaryName] # specCandidates h binaryName rest)"

definition specProbe :: "host \<Rightarrow> string \<Rightarrow> string list \<Rightarrow> string option" where
  "specProbe h binaryName baseDirs = List.find (stat h) (specCandidates h binaryName baseDirs)"

section \<open>The workspace manifest index\<close>

text \<open>
  The module variable \<^verbatim>\<open>cachedWorkspacePackageJsonNodeModules\<close> is \<open>None\<close> while
  \<^verbatim>\<open>undefined\<close> and holds the promise otherwise. The function returns the promise, the
  new value of the variable and the calls it made. \<^verbatim>\<open>then\<close> maps a fulfilled promise
  and passes a rejected one on.
\<close>

type_synonym cache = "string list promise option"

definition scanWorkspace :: "host \<Rightarrow> string list promise" where
  "scanWorkspace h =
     (case findFiles h of
        Rejected \<Rightarrow> Rejected
      | Fulfilled uris \<Rightarrow>
          Fulfilled (map (\<lambda>fsPath. join h [dirname h fsPath, ''node_modules'']) uris))"

definition getWorkspacePackageJsonNodeModules ::
    "host \<Rightarrow> cache \<Rightarrow> string list promise \<times> cache \<times> event list" where
  "getWorkspacePackageJsonNodeModules h cached =
     (case cached of
        None \<Rightarrow> (scanWorkspace h, Some (scanWorkspace h), [FindFiles])
      | Some pending \<Rightarrow> (pending, cached, []))"

definition clearWorkspacePackageJsonNodeModulesCache :: "cache \<Rightarrow> cache" where
  "clearWorkspacePackageJsonNodeModulesCache cached = None"

section \<open>The locators\<close>

text \<open>
  The \<^verbatim>\<open>try\<close> block shared by the project and the global locator:
  \<^verbatim>\<open>replaceTargetFromMainToBin(require.resolve(binaryName, { paths }), binaryName)\<close>.
\<close>

definition resolveFromPackage :: "host \<Rightarrow> string \<Rightarrow> string list \<Rightarrow> (exn + string) option" where
  "resolveFromPackage h binaryName paths =
     (case require_resolve h binaryName paths of
        None \<Rightarrow> Some (Inl ModuleNotFound)
      | Some resolvedPath \<Rightarrow> replaceTargetFromMainToBin h resolvedPath binaryName)"

definition workspaceRoots :: "host \<Rightarrow> string list" where
  "workspaceRoots h = (case workspaceFolders h of None \<Rightarrow> [] | Some folders \<Rightarrow> folders)"

definition workspaceNodeModules :: "host \<Rightarrow> string list" where
  "workspaceNodeModules h = map (\<lambda>folder. join h [folder, ''node_modules'']) (workspaceRoots h)"

text \<open>
  \<open>order2\<close> and \<open>order3\<close> are the completion orders of the existence checks of the second
  and of the third tier. The result is what the function returns or throws, the cache
  variable afterwards and the calls made. The \<^verbatim>\<open>await\<close> of the manifest index is
  outside every \<^verbatim>\<open>try\<close>: a rejected promise is thrown to the caller.
\<close>

definition searchProjectNodeModulesBin ::
    "host \<Rightarrow> nat list \<Rightarrow> nat list \<Rightarrow> cache \<Rightarrow> string
       \<Rightarrow> ((exn + string option) \<times> cache \<times> event list) option" where
  "searchProjectNodeModulesBin h order2 order3 cached binaryName =
     (case resolveFromPackage h binaryName (workspaceRoots h) of
        None \<Rightarrow> None
      | Some (Inr resolvedPath) \<Rightarrow>
          Some (Inr (Some resolvedPath), cached,
            [RequireResolve binaryName (workspaceRoots h)])
      | Some (Inl e) \<Rightarrow>
          (let (result, stats2) =
                 searchNodeModulesDefaultBinPath h order2 binaryName (workspaceNodeModules h)
           in if truthy result
              then Some (Inr result, cached,
                     RequireResolve binaryName (workspaceRoots h) # stats2)
              else
                (let (pending, cached', scan) = getWorkspacePackageJsonNodeModules h cached
                 in case pending of
                      Rejected \<Rightarrow>
                        Some (Inl SearchFailed, cached',
                          RequireResolve binaryName (workspaceRoots h) # stats2 @ scan)
                    | Fulfilled packageJsonNodeModules \<Rightarrow>
                        (let (result3, stats3) =
                               searchNodeModulesDefaultBinPath h order3 binaryName
                                 packageJsonNodeModules
                         in Some (Inr result3, cached',
                              RequireResolve binaryName (workspaceRoots h)
                                # stats2 @ scan @ stats3)))))"

definition safeSpawnSync :: "host \<Rightarrow> string \<Rightarrow> string list \<Rightarrow> string option" where
  "safeSpawnSync h command args =
     (case spawnSync h command args of
        None \<Rightarrow> None
      | Some result \<Rightarrow>
          (if error result \<or> status result \<noteq> Some 0 then None
           else (let trimmed = trim h (stdout result)
                 in if trimmed \<noteq> [] then Some trimmed else None)))"

definition globalNodeModulesPaths :: "host \<Rightarrow> string list" where
  "globalNodeModulesPaths h =
     (let npmGlobalNodeModulesPath = safeSpawnSync h ''npm'' [''root'', ''-g''];
          pnpmGlobalNodeModulesPath = safeSpawnSync h ''pnpm'' [''root'', ''-g''];
          bunGlobalNodeModulesPath = resolve h (homedir h) ''.bun/install/global/node_modules''
      in map the (filter truthy
           [npmGlobalNodeModulesPath, pnpmGlobalNodeModulesPath, Some bunGlobalNodeModulesPath]))"

definition searchGlobalNodeModulesBin ::
    "host \<Rightarrow> nat list \<Rightarrow> string \<Rightarrow> (string option \<times> event list) option" where
  "searchGlobalNodeModulesBin h order2 binaryName =
     (let globalPaths = globalNodeModulesPaths h;
          spawns = [Spawn ''npm'' [''root'', ''-g''], Spawn ''pnpm'' [''root'', ''-g'']]
      in case resolveFromPackage h binaryName globalPaths of
           None \<Rightarrow> None
         | Some (Inr resolvedPath) \<Rightarrow>
             Some (Some resolvedPath, spawns @ [RequireResolve binaryName globalPaths])
         | Some (Inl e) \<Rightarrow>
             (let (result, stats2) =
                    searchNodeModulesDefaultBinPath h order2 binaryName globalPaths
              in Some (result, spawns @ RequireResolve binaryName globalPaths # stats2)))"

text \<open>\<^verbatim>\<open>String.prototype.endsWith\<close> and \<^verbatim>\<open>slice(0, -4)\<close>.\<close>

definition endsWith :: "string \<Rightarrow> string \<Rightarrow> bool" where
  "endsWith s suffix = (length suffix \<le> length s \<and> drop (length s - length suffix) s = suffix)"

definition sliceOff4 :: "string \<Rightarrow> string" where
  "sliceOff4 s = take (length s - 4) s"

text \<open>
  \<^verbatim>\<open>workspace.workspaceFolders?.[0]?.uri.fsPath\<close> with the test \<^verbatim>\<open>if (!cwd)\<close>.
\<close>

definition firstWorkspaceFolder :: "host \<Rightarrow> string option" where
  "firstWorkspaceFolder h =
     (case workspaceFolders h of
        None \<Rightarrow> None
      | Some [] \<Rightarrow> None
      | Some (folder # _) \<Rightarrow> Some folder)"

text \<open>The part of \<^verbatim>\<open>searchSettingsBin\<close> after the path has been made absolute.\<close>

definition statSettingsBinary :: "host \<Rightarrow> string \<Rightarrow> string option \<times> event list" where
  "statSettingsBinary h absolutePath =
     (let settingsBinary =
            (if platform h \<noteq> Win32 \<and> endsWith absolutePath ''.exe''
             then sliceOff4 absolutePath else absolutePath)
      in if stat h settingsBinary then (Some settingsBinary, [Stat settingsBinary])
         else if platform h = Win32
         then (let withExe =
                     (if \<not> endsWith settingsBinary ''.exe''
                      then settingsBinary @ ''.exe'' else settingsBinary)
               in (if stat h withExe then Some withExe else None,
                   [Stat settingsBinary, Stat withExe]))
         else (None, [Stat settingsBinary]))"

definition searchSettingsBin :: "host \<Rightarrow> string \<Rightarrow> string option \<times> event list" where
  "searchSettingsBin h settingsBinary =
     (if \<not> isTrusted h then (None, [])
      else if \<not> validateSafeBinaryPath h settingsBinary then (None, [Validate settingsBinary])
      else if \<not> isAbsolute h settingsBinary
      then (let cwd = firstWorkspaceFolder h
            in if \<not> truthy cwd then (None, [Validate settingsBinary])
               else (let (result, stats) =
                           statSettingsBinary h (normalize h (join h [the cwd, settingsBinary]))
                     in (result, Validate settingsBinary # stats)))
      else (let (result, stats) = statSettingsBinary h settingsBinary
            in (result, Validate settingsBinary # stats)))"

section \<open>The cache over a sequence of calls\<close>

text \<open>
  Calls of \<^verbatim>\<open>getWorkspacePackageJsonNodeModules\<close> one after the other, the \<open>i\<close>-th one
  in the world \<open>hs ! i\<close> (the workspace may have changed between two calls): the promises
  returned, the cache variable at the end and the calls made.
\<close>

fun subsequentCalls ::
    "host list \<Rightarrow> cache \<Rightarrow> string list promise list \<times> cache \<times> event list" where
  "subsequentCalls [] cached = ([], cached, [])"
| "subsequentCalls (h # hs) cached =
     (let (pending, cached', scan) = getWorkspacePackageJsonNodeModules h cached;
          (rest, cached'', scans) = subsequentCalls hs cached'
      in (pending # rest, cached'', scan @ scans))"

text \<open>
  Following the words of the specification: every manifest found is mapped to
  \<^verbatim>\<open><its containing directory>/node_modules\<close>, in the order of the search.
\<close>

fun specDependencyDirs :: "host \<Rightarrow> string list \<Rightarrow> string list" where
  "specDependencyDirs h [] = []"
| "specDependencyDirs h (manifest # rest) =
     join h [dirname h manifest, ''node_modules''] # specDependencyDirs h rest"

section \<open>The settings locator in the words of the specification\<close>

text \<open>
  Following the words of the specification: a path that is not absolute is resolved
  against the first workspace root, and there is no path when there is no such root.
\<close>

definition settingsPath :: "host \<Rightarrow> string \<Rightarrow> string option" where
  "settingsPath h settingsBinary =
     (if isAbsolute h settingsBinary then Some settingsBinary
      else case workspaceFolders h of
          None \<Rightarrow> None
        | Some [] \<Rightarrow> None
        | Some (root # _) \<Rightarrow>
            if root = [] then None else Some (normalize h (join h [root, settingsBinary])))"

text \<open>Following the words of the specification: off Windows a trailing \<^verbatim>\<open>.exe\<close> is stripped.\<close>

definition withoutExe :: "host \<Rightarrow> string \<Rightarrow> string" where
  "withoutExe h p =
     (if platform h \<noteq> Win32 \<and> endsWith p ''.exe'' then take (length p - 4) p else p)"

section \<open>The launch descriptor\<close>

text \<open>
  \<^verbatim>\<open>runExecutable\<close> lives in \<^verbatim>\<open>client/tools/lsp_helper.ts\<close>, of which only the unit
  tests are at hand. The definitions of this section are therefore written from the
  specification (sections 4.7 and 4.8); the command name \<^verbatim>\<open>node\<close> and the name of the
  environment flag are those of the tests. The \<^verbatim>\<open>PATH\<close> entry of the child's
  environment is not part of the model.
\<close>

text \<open>
  Modelled from the spec: the process that hosts the extension, as far as the runtime
  resolver (missing from the sources) reads it. \<open>pathLookup\<close> is the outcome of running
  the runtime's canonical command directly, \<open>loginShellLookup sh\<close> the outcome of running
  the shell \<open>sh\<close> in interactive login mode to print the path of the runtime, each with
  its timeout of five seconds.
\<close>

record process_env =
  processPlatform :: platform
  pathLookup :: "spawn_return option"
  SHELL :: "string option"
  loginShellLookup :: "string \<Rightarrow> spawn_return option"
  execPath :: string

text \<open>
  Modelled from the spec: a subprocess of the missing runtime resolver succeeded when it
  did not throw, reported no error (a timeout is one) and exited with status 0.
\<close>

definition spawnSucceeded :: "spawn_return option \<Rightarrow> bool" where
  "spawnSucceeded r =
     (case r of None \<Rightarrow> False | Some result \<Rightarrow> \<not> error result \<and> status result = Some 0)"

text \<open>
  Modelled from the spec: the lines of the standard output that the missing runtime
  resolver reads, separated by line feeds.
\<close>

fun splitLines :: "string \<Rightarrow> string list" where
  "splitLines [] = [[]]"
| "splitLines (c # cs) =
     (if c = CHR 0x0A then [] # splitLines cs
      else (case splitLines cs of
              [] \<Rightarrow> [[c]]
            | line # lines \<Rightarrow> (c # line) # lines))"

text \<open>
  Modelled from the spec: the last non-empty line of the output, which the missing
  runtime resolver takes as the path of the runtime.
\<close>

definition lastNonEmptyLine :: "string \<Rightarrow> string option" where
  "lastNonEmptyLine out =
     (let nonEmpty = filter (\<lambda>line. line \<noteq> []) (splitLines out)
      in if nonEmpty = [] then None else Some (last nonEmpty))"

text \<open>Lines written one after the other with a line feed between two of them.\<close>

fun joinLines :: "string list \<Rightarrow> string" where
  "joinLines [] = []"
| "joinLines [line] = line"
| "joinLines (line # next # lines) = line @ CHR 0x0A # joinLines (next # lines)"

text \<open>
  Modelled from the spec: the third tier of the missing runtime resolver, the look-up
  in the login shell named by the environment variable \<^verbatim>\<open>SHELL\<close>.
\<close>

definition loginShellRuntime :: "process_env \<Rightarrow> string option" where
  "loginShellRuntime pe =
     (case SHELL pe of
        None \<Rightarrow> None
      | Some sh \<Rightarrow>
          (case loginShellLookup pe sh of
             None \<Rightarrow> None
           | Some result \<Rightarrow>
               if \<not> error result \<and> status result = Some 0
               then lastNonEmptyLine (stdout result) else None))"

text \<open>
  Modelled from the spec: the missing runtime resolver \<^verbatim>\<open>resolveRuntimePath\<close>. An
  explicit path wins; then the look-up on \<^verbatim>\<open>PATH\<close>, whose result is the command name
  itself; then the login shell; then the executable of the hosting process. The second
  component tells whether this last tier was used.
\<close>

definition resolveRuntimePath :: "process_env \<Rightarrow> string option \<Rightarrow> string \<times> bool" where
  "resolveRuntimePath pe explicitPath =
     (case explicitPath of
        Some p \<Rightarrow> (p, False)
      | None \<Rightarrow>
          if spawnSucceeded (pathLookup pe) then (''node'', False)
          else (case loginShellRuntime pe of
                  Some p \<Rightarrow> (p, False)
                | None \<Rightarrow> (execPath pe, True)))"

text \<open>
  Modelled from the spec: the launch descriptor that the missing \<^verbatim>\<open>runExecutable\<close>
  returns: command, arguments, the shell flag and the overrides of the environment.
\<close>

record launch_descriptor =
  command :: string
  args :: "string list"
  shell :: bool
  env :: "string \<rightharpoonup> string"

text \<open>
  Modelled from the spec: the test of the missing \<^verbatim>\<open>runExecutable\<close> for a script that
  the runtime executes, a path ending in \<^verbatim>\<open>.js\<close>, \<^verbatim>\<open>.cjs\<close> or \<^verbatim>\<open>.mjs\<close>.
\<close>

definition isScript :: "string \<Rightarrow> bool" where
  "isScript targetPath =
     (endsWith targetPath ''.js'' \<or> endsWith targetPath ''.cjs'' \<or> endsWith targetPath ''.mjs'')"

text \<open>
  Modelled from the spec: the missing \<^verbatim>\<open>runExecutable\<close>. A script is run by the resolved
  runtime with the arguments \<^verbatim>\<open>[targetPath, "--lsp"]\<close>, and the environment flag is set
  when the runtime is the hosting process; any other path is a native binary with the
  argument \<^verbatim>\<open>--lsp\<close>, on Windows quoted and run through the shell.
\<close>

definition runExecutable ::
    "process_env \<Rightarrow> string \<Rightarrow> string \<Rightarrow> string option \<Rightarrow> launch_descriptor" where
  "runExecutable pe targetPath tool nodePath =
     (if isScript targetPath
      then (let (runtime, hostFallback) = resolveRuntimePath pe nodePath
            in \<lparr> command = runtime, args = [targetPath, ''--lsp''], shell = False,
                 env = (if hostFallback then [''ELECTRON_RUN_AS_NODE'' \<mapsto> ''1'']
                        else Map.empty) \<rparr>)
      else if processPlatform pe = Win32
      then \<lparr> command = [CHR 0x22] @ targetPath @ [CHR 0x22], args = [''--lsp''],
             shell = True, env = Map.empty \<rparr>
      else \<lparr> command = targetPath, args = [''--lsp''], shell = False, env = Map.empty \<rparr>)"

section \<open>Example hosts\<close>

text \<open>
  A \<^verbatim>\<open>dirname\<close> for absolute paths written with \<^verbatim>\<open>/\<close>: everything before the last
  \<^verbatim>\<open>/\<close>, and \<^verbatim>\<open>/\<close> itself for a path directly below the root and for the root.
\<close>

definition parentDir :: "string \<Rightarrow> string" where
  "parentDir p =
     (let d = rev (drop 1 (dropWhile (\<lambda>c. c \<noteq> CHR ''/'') (rev p)))
      in if d = [] then ''/'' else d)"

text \<open>A \<^verbatim>\<open>join\<close> for such paths: the parts with one \<^verbatim>\<open>/\<close> between two of them.\<close>

definition joinSlash :: "string list \<Rightarrow> string" where
  "joinSlash parts =
     (case parts of
        [] \<Rightarrow> ''.''
      | p # ps \<Rightarrow> foldl (\<lambda>acc q. if acc = ''/'' then acc @ q else acc @ ''/'' @ q) p ps)"

text \<open>The names of the properties of \<^verbatim>\<open>Object.prototype\<close>.\<close>

definition objectPrototype :: "string list" where
  "objectPrototype =
     [''constructor'', ''hasOwnProperty'', ''isPrototypeOf'', ''propertyIsEnumerable'',
      ''toLocaleString'', ''toString'', ''valueOf'', ''__proto__'', ''__defineGetter__'',
      ''__defineSetter__'', ''__lookupGetter__'', ''__lookupSetter__'']"

text \<open>A \<^verbatim>\<open>trim\<close> for output in ASCII.\<close>

definition isSpace :: "char \<Rightarrow> bool" where
  "isSpace c = (c \<in> set [CHR '' '', CHR 0x09, CHR 0x0A, CHR 0x0B, CHR 0x0C, CHR 0x0D])"

definition asciiTrim :: "string \<Rightarrow> string" where
  "asciiTrim s = rev (dropWhile isSpace (rev (dropWhile isSpace s)))"

text \<open>
  A trusted POSIX machine without files, without workspace folders and without package
  managers; the other hosts change some of its fields.
\<close>

definition baseHost :: host where
  "baseHost = \<lparr> platform = Posix, dirname = parentDir, join = joinSlash,
     resolve = (\<lambda>dir entry. joinSlash [dir, entry]), isAbsolute = (\<lambda>p. take 1 p = ''/''),
     normalize = (\<lambda>p. p), readFileSync = (\<lambda>p. None), JSON_parse = (\<lambda>raw. None),
     inherited = (\<lambda>v k. k \<in> set objectPrototype), trim = asciiTrim,
     stat = (\<lambda>p. False), require_resolve = (\<lambda>name paths. None),
     workspaceFolders = None, isTrusted = True, findFiles = Fulfilled [],
     validateSafeBinaryPath = (\<lambda>p. True), spawnSync = (\<lambda>command args. None),
     homedir = ''/home/u'' \<rparr>"

text \<open>A package whose manifest is \<^verbatim>\<open>{"bin":{"oxlint":"bin/oxlint.mjs"}}\<close>.\<close>

definition mappingBinHost :: host where
  "mappingBinHost = baseHost \<lparr>
     readFileSync := (\<lambda>p. if p = ''/pkg/package.json''
                          then Some ''{\"bin\":{\"oxlint\":\"bin/oxlint.mjs\"}}'' else None),
     JSON_parse := (\<lambda>raw.
        Some (JObject [(''bin'', JObject [(''oxlint'', JString ''bin/oxlint.mjs'')])])) \<rparr>"

text \<open>A package whose manifest is \<^verbatim>\<open>{"bin":""}\<close>.\<close>

definition emptyBinHost :: host where
  "emptyBinHost = baseHost \<lparr>
     readFileSync := (\<lambda>p. if p = ''/pkg/package.json'' then Some ''{\"bin\":\"\"}'' else None),
     JSON_parse := (\<lambda>raw. Some (JObject [(''bin'', JString [])])) \<rparr>"

text \<open>The only manifest is \<^verbatim>\<open>/package.json\<close>, in the root directory.\<close>

definition rootManifestHost :: host where
  "rootManifestHost = baseHost \<lparr>
     readFileSync := (\<lambda>p. if p = ''/package.json''
                          then Some ''{\"bin\":\"bin/oxlint.mjs\"}'' else None),
     JSON_parse := (\<lambda>raw. Some (JObject [(''bin'', JString ''bin/oxlint.mjs'')])) \<rparr>"

text \<open>
  A Windows machine on which \<^verbatim>\<open>/a/.bin/oxlint.exe\<close> and \<^verbatim>\<open>/b/.bin/oxlint\<close> exist.
\<close>

definition windowsBinHost :: host where
  "windowsBinHost = baseHost \<lparr> platform := Win32,
     stat := (\<lambda>p. p = ''/a/.bin/oxlint.exe'' \<or> p = ''/b/.bin/oxlint'') \<rparr>"

text \<open>An untrusted workspace in which every path exists and is accepted by the validator.\<close>

definition untrustedHost :: host where
  "untrustedHost = baseHost \<lparr> isTrusted := False, stat := (\<lambda>p. True) \<rparr>"

text \<open>
  A workspace \<^verbatim>\<open>/ws\<close> with a nested package \<^verbatim>\<open>/ws/packages/app\<close>. The packages
  \<^verbatim>\<open>oxlint\<close> and \<^verbatim>\<open>typescript\<close> are installed; the second one declares the binary
  \<^verbatim>\<open>tsc\<close> only. The shims \<^verbatim>\<open>/ws/node_modules/.bin/biome\<close> and
  \<^verbatim>\<open>/ws/packages/app/node_modules/.bin/tsc\<close> exist. \<^verbatim>\<open>npm root -g\<close> prints
  \<^verbatim>\<open>/usr/lib/node_modules\<close> and \<^verbatim>\<open>pnpm\<close> exits with status 1.
\<close>

definition monorepoHost :: host where
  "monorepoHost = baseHost \<lparr>
     readFileSync := (\<lambda>p.
        if p = ''/ws/node_modules/oxlint/package.json''
        then Some ''{\"bin\":{\"oxlint\":\"bin/oxlint.mjs\"}}''
        else if p = ''/ws/node_modules/typescript/package.json''
        then Some ''{\"bin\":{\"tsc\":\"bin/tsc\"}}''
        else None),
     JSON_parse := (\<lambda>raw.
        if raw = ''{\"bin\":{\"oxlint\":\"bin/oxlint.mjs\"}}''
        then Some (JObject [(''bin'', JObject [(''oxlint'', JString ''bin/oxlint.mjs'')])])
        else if raw = ''{\"bin\":{\"tsc\":\"bin/tsc\"}}''
        then Some (JObject [(''bin'', JObject [(''tsc'', JString ''bin/tsc'')])])
        else None),
     stat := (\<lambda>p. p = ''/ws/node_modules/.bin/biome''
                 \<or> p = ''/ws/packages/app/node_modules/.bin/tsc''),
     require_resolve := (\<lambda>name paths.
        if paths = [''/ws''] \<and> name = ''oxlint''
        then Some ''/ws/node_modules/oxlint/dist/index.js''
        else if paths = [''/ws''] \<and> name = ''typescript''
        then Some ''/ws/node_modules/typescript/lib/typescript.js''
        else None),
     workspaceFolders := Some [''/ws''],
     findFiles := Fulfilled [''/ws/package.json'', ''/ws/packages/app/package.json''],
     spawnSync := (\<lambda>command args.
        if command = ''npm''
        then Some \<lparr> error = False, status = Some 0,
                    stdout = ''/usr/lib/node_modules'' @ [CHR 0x0A] \<rparr>
        else Some \<lparr> error = False, status = Some 1, stdout = [] \<rparr>) \<rparr>"

text \<open>The same workspace before the nested package has a manifest.\<close>

definition singleManifestHost :: host where
  "singleManifestHost = monorepoHost \<lparr> findFiles := Fulfilled [''/ws/package.json''] \<rparr>"

text \<open>The same workspace when the search of the editor fails.\<close>

definition searchFailsHost :: host where
  "searchFailsHost = monorepoHost \<lparr> findFiles := Rejected \<rparr>"

text \<open>
  A Windows machine on which \<^verbatim>\<open>C:/tools/oxlint.exe.exe\<close> is the only file, and every
  path is absolute.
\<close>

definition windowsExeHost :: host where
  "windowsExeHost = baseHost \<lparr> platform := Win32, isAbsolute := (\<lambda>p. True),
     stat := (\<lambda>p. p = ''C:/tools/oxlint.exe.exe'') \<rparr>"

text \<open>
  The process of the unit tests: \<^verbatim>\<open>node\<close> is not on \<^verbatim>\<open>PATH\<close>, and the login shell
  \<^verbatim>\<open>/bin/zsh\<close> prints a line of noise before the path of the runtime.
\<close>

definition zshEnv :: process_env where
  "zshEnv = \<lparr> processPlatform = Posix,
     pathLookup = Some \<lparr> error = False, status = Some 1, stdout = [] \<rparr>,
     SHELL = Some ''/bin/zsh'',
     loginShellLookup = (\<lambda>sh.
        if sh = ''/bin/zsh''
        then Some \<lparr> error = False, status = Some 0,
                    stdout = ''noise'' @ [CHR 0x0A] @ ''/opt/homebrew/bin/node'' @ [CHR 0x0A] \<rparr>
        else Some \<lparr> error = False, status = Some 1, stdout = [] \<rparr>),
     execPath = ''/usr/share/code/code'' \<rparr>"

text \<open>The same process when the login shell fails as well.\<close>

definition noRuntimeEnv :: process_env where
  "noRuntimeEnv = zshEnv \<lparr> loginShellLookup :=
     (\<lambda>sh. Some \<lparr> error = False, status = Some 1, stdout = [] \<rparr>) \<rparr>"

text \<open>The same process on Windows.\<close>

definition windowsEnv :: process_env where
  "windowsEnv = zshEnv \<lparr> processPlatform := Win32 \<rparr>"

section \<open>The manifest walk\<close>

lemma walkUp_root: "isRoot h dir \<Longrightarrow> walkUp h dir b = Some (Inl (ManifestNotFound b))"
  by (subst walkUp.simps) (simp add: isRoot_def)

lemma walkUp_skip:
  "\<not> isRoot h dir \<Longrightarrow> manifestAt h dir = None \<Longrightarrow> walkUp h dir b = walkUp h (dirname h dir) b"
  by (subst walkUp.simps) (simp add: isRoot_def manifestAt_def)

lemma walkUp_found:
  "\<not> isRoot h dir \<Longrightarrow> manifestAt h dir = Some raw
     \<Longrightarrow> walkUp h dir b = Some (readManifest h dir raw b)"
  by (subst walkUp.simps) (simp add: isRoot_def manifestAt_def)

text \<open>Directories without a readable manifest are passed over, one parent at a time.\<close>

lemma walkUp_climb:
  "(\<And>j. j < k \<Longrightarrow> \<not> isRoot h ((dirname h ^^ j) d) \<and> manifestAt h ((dirname h ^^ j) d) = None)
     \<Longrightarrow> walkUp h d b = walkUp h ((dirname h ^^ k) d) b"
proof (induction k arbitrary: d)
  case 0
  show ?case by simp
next
  case (Suc k)
  from Suc.prems [of 0] have first: "walkUp h d b = walkUp h (dirname h d) b"
    by (simp add: walkUp_skip)
  have "walkUp h (dirname h d) b = walkUp h ((dirname h ^^ k) (dirname h d)) b"
  proof (rule Suc.IH)
    fix j assume "j < k"
    with Suc.prems [of "Suc j"] show "\<not> isRoot h ((dirname h ^^ j) (dirname h d))
        \<and> manifestAt h ((dirname h ^^ j) (dirname h d)) = None"
      by (simp add: funpow_swap1)
  qed
  with first show ?case by (simp add: funpow_swap1)
qed

lemma readManifest_string:
  "JSON_parse h raw = Some (JObject props) \<Longrightarrow> map_of props ''bin'' = Some (JString s) \<Longrightarrow>
   readManifest h dir raw b
     = (if s = [] then Inl (BinEntryNotFound b) else Inr (resolve h dir s))"
  by (simp add: readManifest_def binOf_def binEntry_def truthyValue_def)

lemma readManifest_mapping:
  "JSON_parse h raw = Some (JObject props) \<Longrightarrow> map_of props ''bin'' = Some (JObject m) \<Longrightarrow>
   readManifest h dir raw b =
     (case map_of m b of
        None \<Rightarrow> if inherited h (JObject m) b then Inl TypeError else Inl (BinEntryNotFound b)
      | Some (JString s) \<Rightarrow>
          if s = [] then Inl (BinEntryNotFound b) else Inr (resolve h dir s)
      | Some entry \<Rightarrow>
          if truthyValue (Value entry) then Inl TypeError else Inl (BinEntryNotFound b))"
  by (simp add: readManifest_def binOf_def binEntry_def ownProperty_def truthyValue_def
      split: option.splits json.splits)

lemma readManifest_absent:
  "JSON_parse h raw = Some (JObject props) \<Longrightarrow> map_of props ''bin'' = None \<Longrightarrow>
   readManifest h dir raw b = Inl (BinEntryNotFound b)"
  by (simp add: readManifest_def binOf_def binEntry_def truthyValue_def)

lemma readManifest_unparsed:
  "JSON_parse h raw = None \<Longrightarrow> readManifest h dir raw b = Inl JsonSyntaxError"
  by (simp add: readManifest_def)

text \<open>
  Claim C1, as amended. Let the directory \<open>ancestor h p k\<close> be the first one of the walk
  from \<open>p\<close> that holds a readable \<^verbatim>\<open>package.json\<close>, and let it lie below the root. Then
  the result is decided there alone, whatever the outer directories hold, also when the
  file does not parse. For a manifest that is an object: a \<^verbatim>\<open>bin\<close> that is a non-empty
  string is resolved against that directory for every binary name; a \<^verbatim>\<open>bin\<close> that is a
  mapping with a non-empty string for the queried name gives that entry, resolved against
  that directory; and a missing \<^verbatim>\<open>bin\<close>, a mapping that neither has nor inherits the
  name, and an empty entry raise the bin-entry-not-found error.
\<close>

theorem first_manifest_is_authoritative:
  assumes "\<forall>j<k. \<not> isRoot h (ancestor h p j) \<and> manifestAt h (ancestor h p j) = None"
      and "\<not> isRoot h (ancestor h p k)"
      and "manifestAt h (ancestor h p k) = Some raw"
  shows "replaceTargetFromMainToBin h p b = Some (readManifest h (ancestor h p k) raw b)
     \<and> (JSON_parse h raw = None \<longrightarrow>
          replaceTargetFromMainToBin h p b = Some (Inl JsonSyntaxError))
     \<and> (JSON_parse h raw = Some (JObject props) \<longrightarrow>
          (map_of props ''bin'' = Some (JString s) \<and> s \<noteq> [] \<longrightarrow>
             replaceTargetFromMainToBin h p b = Some (Inr (resolve h (ancestor h p k) s)))
        \<and> (map_of props ''bin'' = Some (JObject m) \<and> map_of m b = Some (JString s) \<and> s \<noteq> [] \<longrightarrow>
             replaceTargetFromMainToBin h p b = Some (Inr (resolve h (ancestor h p k) s)))
        \<and> (map_of props ''bin'' = Some (JObject m) \<and> map_of m b = None
              \<and> \<not> inherited h (JObject m) b \<longrightarrow>
             replaceTargetFromMainToBin h p b = Some (Inl (BinEntryNotFound b)))
        \<and> (map_of props ''bin'' = None \<longrightarrow>
             replaceTargetFromMainToBin h p b = Some (Inl (BinEntryNotFound b)))
        \<and> (map_of props ''bin'' = Some (JString []) \<longrightarrow>
             replaceTargetFromMainToBin h p b = Some (Inl (BinEntryNotFound b)))
        \<and> (map_of props ''bin'' = Some (JObject m) \<and> map_of m b = Some (JString []) \<longrightarrow>
             replaceTargetFromMainToBin h p b = Some (Inl (BinEntryNotFound b))))"
proof -
  have "walkUp h (dirname h p) b = walkUp h (ancestor h p k) b"
    using assms(1) unfolding ancestor_def by (intro walkUp_climb) simp
  also have "\<dots> = Some (readManifest h (ancestor h p k) raw b)"
    using assms(2,3) by (rule walkUp_found)
  finally have found:
    "replaceTargetFromMainToBin h p b = Some (readManifest h (ancestor h p k) raw b)"
    by (simp add: replaceTargetFromMainToBin_def)
  show ?thesis
    unfolding found
    by (simp add: readManifest_string readManifest_mapping readManifest_absent
        readManifest_unparsed)
qed

text \<open>
  The manifest of \<^verbatim>\<open>/pkg\<close> is found one directory above \<^verbatim>\<open>/pkg/dist\<close>: its entry
  for \<^verbatim>\<open>oxlint\<close> is returned, and a name it does not list is an error.
\<close>

theorem first_manifest_is_authoritative_witness:
  "\<not> isRoot mappingBinHost (ancestor mappingBinHost ''/pkg/dist/index.js'' 0)
   \<and> manifestAt mappingBinHost (ancestor mappingBinHost ''/pkg/dist/index.js'' 0) = None
   \<and> \<not> isRoot mappingBinHost (ancestor mappingBinHost ''/pkg/dist/index.js'' 1)
   \<and> manifestAt mappingBinHost (ancestor mappingBinHost ''/pkg/dist/index.js'' 1)
        = Some ''{\"bin\":{\"oxlint\":\"bin/oxlint.mjs\"}}''
   \<and> JSON_parse mappingBinHost ''{\"bin\":{\"oxlint\":\"bin/oxlint.mjs\"}}''
        = Some (JObject [(''bin'', JObject [(''oxlint'', JString ''bin/oxlint.mjs'')])])
   \<and> \<not> inherited mappingBinHost (JObject [(''oxlint'', JString ''bin/oxlint.mjs'')]) ''oxfmt''
   \<and> replaceTargetFromMainToBin mappingBinHost ''/pkg/dist/index.js'' ''oxlint''
        = Some (Inr ''/pkg/bin/oxlint.mjs'')
   \<and> replaceTargetFromMainToBin mappingBinHost ''/pkg/dist/index.js'' ''oxfmt''
        = Some (Inl (BinEntryNotFound ''oxfmt''))"
proof -
  have inner: "\<forall>j<1. \<not> isRoot mappingBinHost (ancestor mappingBinHost ''/pkg/dist/index.js'' j)
      \<and> manifestAt mappingBinHost (ancestor mappingBinHost ''/pkg/dist/index.js'' j) = None"
    by (simp add: ancestor_def isRoot_def manifestAt_def mappingBinHost_def baseHost_def
        parentDir_def joinSlash_def)
  have below: "\<not> isRoot mappingBinHost (ancestor mappingBinHost ''/pkg/dist/index.js'' 1)"
    by (simp add: ancestor_def isRoot_def mappingBinHost_def baseHost_def parentDir_def)
  have found: "manifestAt mappingBinHost (ancestor mappingBinHost ''/pkg/dist/index.js'' 1)
      = Some ''{\"bin\":{\"oxlint\":\"bin/oxlint.mjs\"}}''"
    by (simp add: ancestor_def manifestAt_def mappingBinHost_def baseHost_def parentDir_def
        joinSlash_def)
  have parsed: "JSON_parse mappingBinHost ''{\"bin\":{\"oxlint\":\"bin/oxlint.mjs\"}}''
      = Some (JObject [(''bin'', JObject [(''oxlint'', JString ''bin/oxlint.mjs'')])])"
    by (simp add: mappingBinHost_def baseHost_def)
  have own: "\<not> inherited mappingBinHost (JObject [(''oxlint'', JString ''bin/oxlint.mjs'')])
      ''oxfmt''"
    by (simp add: mappingBinHost_def baseHost_def objectPrototype_def)
  have dir: "resolve mappingBinHost (ancestor mappingBinHost ''/pkg/dist/index.js'' (Suc 0))
      ''bin/oxlint.mjs'' = ''/pkg/bin/oxlint.mjs''"
    by (simp add: ancestor_def mappingBinHost_def baseHost_def parentDir_def joinSlash_def)
  have listed: "replaceTargetFromMainToBin mappingBinHost ''/pkg/dist/index.js'' ''oxlint''
      = Some (Inr ''/pkg/bin/oxlint.mjs'')"
    using first_manifest_is_authoritative [where s = "''bin/oxlint.mjs''" and b = "''oxlint''"
        and m = "[(''oxlint'', JString ''bin/oxlint.mjs'')]", OF inner below found,
        THEN conjunct2, THEN conjunct2, THEN mp, OF parsed, THEN conjunct2, THEN conjunct1]
    by (simp add: dir)
  have missing: "replaceTargetFromMainToBin mappingBinHost ''/pkg/dist/index.js'' ''oxfmt''
      = Some (Inl (BinEntryNotFound ''oxfmt''))"
    using first_manifest_is_authoritative [where s = "''bin/oxlint.mjs''" and b = "''oxfmt''"
        and m = "[(''oxlint'', JString ''bin/oxlint.mjs'')]", OF inner below found,
        THEN conjunct2, THEN conjunct2, THEN mp, OF parsed,
        THEN conjunct2, THEN conjunct2, THEN conjunct1] own
    by simp
  from inner below found parsed own listed missing show ?thesis by simp
qed

text \<open>
  The claim as first stated fails in three places. Where \<^verbatim>\<open>bin\<close> is the empty string,
  the manifest of \<^verbatim>\<open>/pkg\<close> is the first one and its \<^verbatim>\<open>bin\<close> is a plain string, and
  the function raises the bin-entry-not-found error instead of returning the entry
  resolved against \<^verbatim>\<open>/pkg\<close>. Where the first directory with a readable manifest is
  the root, the function raises the manifest-not-found error instead of using it. And
  where the mapping lacks the queried name \<^verbatim>\<open>toString\<close>, which every object inherits,
  the function raises a type error instead of the bin-entry-not-found error.
\<close>

theorem empty_bin_string_counterexample:
  "manifestAt emptyBinHost ''/pkg/dist'' = None
   \<and> manifestAt emptyBinHost ''/pkg'' = Some ''{\"bin\":\"\"}''
   \<and> JSON_parse emptyBinHost ''{\"bin\":\"\"}'' = Some (JObject [(''bin'', JString [])])
   \<and> replaceTargetFromMainToBin emptyBinHost ''/pkg/dist/index.js'' ''oxlint''
       = Some (Inl (BinEntryNotFound ''oxlint''))
   \<and> replaceTargetFromMainToBin emptyBinHost ''/pkg/dist/index.js'' ''oxlint''
       \<noteq> Some (Inr (resolve emptyBinHost ''/pkg'' []))
   \<and> ancestor rootManifestHost ''/index.js'' 0 = ''/''
   \<and> manifestAt rootManifestHost ''/'' = Some ''{\"bin\":\"bin/oxlint.mjs\"}''
   \<and> replaceTargetFromMainToBin rootManifestHost ''/index.js'' ''oxlint''
       = Some (Inl (ManifestNotFound ''oxlint''))
   \<and> map_of [(''oxlint'', JString ''bin/oxlint.mjs'')] ''toString'' = None
   \<and> replaceTargetFromMainToBin mappingBinHost ''/pkg/dist/index.js'' ''toString''
       = Some (Inl TypeError)"
  by (simp add: replaceTargetFromMainToBin_def walkUp.simps manifestAt_def readManifest_def
      ancestor_def binOf_def binEntry_def ownProperty_def truthyValue_def emptyBinHost_def
      rootManifestHost_def mappingBinHost_def baseHost_def parentDir_def joinSlash_def
      objectPrototype_def)

text \<open>
  When no directory of the walk below the root holds a readable \<^verbatim>\<open>package.json\<close>, the
  function raises the manifest-not-found error, whatever the root directory holds.
\<close>

lemma no_manifest_below_root:
  assumes "\<forall>j<n. \<not> isRoot h (ancestor h p j) \<and> manifestAt h (ancestor h p j) = None"
      and "isRoot h (ancestor h p n)"
  shows "replaceTargetFromMainToBin h p b = Some (Inl (ManifestNotFound b))"
proof -
  have "walkUp h (dirname h p) b = walkUp h (ancestor h p n) b"
    using assms(1) unfolding ancestor_def by (intro walkUp_climb) simp
  with assms(2) show ?thesis
    by (simp add: replaceTargetFromMainToBin_def walkUp_root)
qed

text \<open>
  Claim C2, at the input where the code departs from it. The root \<^verbatim>\<open>/\<close> is the second
  ancestor of \<^verbatim>\<open>/pkg/dist\<close> and the nearest directory with a manifest; its
  \<^verbatim>\<open>package.json\<close> is readable, parses and declares a \<^verbatim>\<open>bin\<close>. The loop ends on
  reaching the root, before the read, and the function raises the manifest-not-found
  error instead of returning \<^verbatim>\<open>/bin/oxlint.mjs\<close>.
\<close>

theorem root_manifest_is_skipped:
  "isRoot rootManifestHost ''/''
   \<and> ancestor rootManifestHost ''/pkg/dist/index.js'' 2 = ''/''
   \<and> manifestAt rootManifestHost ''/pkg/dist'' = None
   \<and> manifestAt rootManifestHost ''/pkg'' = None
   \<and> manifestAt rootManifestHost ''/'' = Some ''{\"bin\":\"bin/oxlint.mjs\"}''
   \<and> readManifest rootManifestHost ''/'' ''{\"bin\":\"bin/oxlint.mjs\"}'' ''oxlint''
        = Inr ''/bin/oxlint.mjs''
   \<and> replaceTargetFromMainToBin rootManifestHost ''/pkg/dist/index.js'' ''oxlint''
        = Some (Inl (ManifestNotFound ''oxlint''))"
  by (simp add: replaceTargetFromMainToBin_def walkUp.simps ancestor_def isRoot_def
      manifestAt_def readManifest_def binOf_def binEntry_def truthyValue_def
      rootManifestHost_def baseHost_def parentDir_def joinSlash_def numeral_2_eq_2)

section \<open>The probe of the .bin directories\<close>

lemma fold_store_nth:
  "j < length slots \<Longrightarrow>
   fold (\<lambda>i s. s[i := Some (vals ! i)]) order slots ! j
     = (if j \<in> set order then Some (vals ! j) else slots ! j)"
proof (induction order arbitrary: slots)
  case Nil
  show ?case by simp
next
  case (Cons i order)
  then show ?case by (simp add: nth_list_update)
qed

lemma fold_store_length:
  "length (fold (\<lambda>i s. s[i := Some (vals ! i)]) order slots) = length slots"
  by (induction order arbitrary: slots) simp_all

text \<open>Once every callback has finished, the slots hold the values in the order of the input.\<close>

lemma Promise_all_settled:
  assumes "completionOrder (length vals) order"
  shows "Promise_all order vals = map Some vals"
proof (rule nth_equalityI)
  show "length (Promise_all order vals) = length (map Some vals)"
    by (simp add: Promise_all_def fold_store_length)
next
  fix j assume "j < length (Promise_all order vals)"
  then have j: "j < length vals" by (simp add: Promise_all_def fold_store_length)
  with assms have "j \<in> set order" by (simp add: completionOrder_def)
  with j show "Promise_all order vals ! j = map Some vals ! j"
    by (simp add: Promise_all_def fold_store_nth)
qed

lemma findIndex_lower: "- 1 \<le> findIndex P xs"
  by (induction xs) (simp_all add: Let_def)

lemma findIndex_map: "findIndex P (map g xs) = findIndex (\<lambda>x. P (g x)) xs"
  by (induction xs) simp_all

lemma findIndex_find:
  "(if findIndex Q cs = - 1 then None else Some (cs ! nat (findIndex Q cs))) = List.find Q cs"
proof (induction cs)
  case Nil
  show ?case by simp
next
  case (Cons c cs)
  have "- 1 \<le> findIndex Q cs" by (rule findIndex_lower)
  then have "findIndex Q cs \<noteq> - 1 \<Longrightarrow> nat (findIndex Q cs + 1) = Suc (nat (findIndex Q cs))"
    by simp
  with Cons show ?case by (auto simp add: Let_def)
qed

lemma candidates_spec: "candidates h b folders = specCandidates h b folders"
  by (induction folders) (simp_all add: candidates_def Let_def)

lemma probe_result:
  assumes "completionOrder (length (specCandidates h binaryName folders)) order"
  shows "searchNodeModulesDefaultBinPath h order binaryName folders
     = (specProbe h binaryName folders, map Stat (specCandidates h binaryName folders))"
proof -
  have "Promise_all order (map (stat h) (specCandidates h binaryName folders))
          = map Some (map (stat h) (specCandidates h binaryName folders))"
    using assms by (intro Promise_all_settled) simp
  then have "searchNodeModulesDefaultBinPath h order binaryName folders
      = (if findIndex (stat h) (specCandidates h binaryName folders) = - 1 then None
         else Some (specCandidates h binaryName folders
                      ! nat (findIndex (stat h) (specCandidates h binaryName folders))),
         map Stat (specCandidates h binaryName folders))"
    by (simp add: searchNodeModulesDefaultBinPath_def candidates_spec findIndex_map Let_def)
  then show ?thesis
    by (simp only: findIndex_find specProbe_def)
qed

text \<open>
  Claim C3. The candidates are \<^verbatim>\<open><baseDir>/.bin/<binaryName>\<close> in the order of the
  caller, on Windows each followed by the same path with \<^verbatim>\<open>.exe\<close> appended, and
  whatever the order in which the existence checks finish, the result is the first
  candidate of that list whose check succeeds, or nothing when none does.
\<close>

theorem probe_first_in_caller_order:
  assumes "completionOrder (length (specCandidates h binaryName folders)) order"
  shows "candidates h binaryName folders = specCandidates h binaryName folders
     \<and> fst (searchNodeModulesDefaultBinPath h order binaryName folders)
          = List.find (stat h) (specCandidates h binaryName folders)"
  using assms by (simp add: probe_result candidates_spec specProbe_def)

text \<open>
  The checks of the second directory finish first, and the result is still the candidate
  of the first directory.
\<close>

theorem probe_first_in_caller_order_witness:
  "completionOrder (length (specCandidates windowsBinHost ''oxlint'' [''/a'', ''/b'']))
     [2, 3, 1, 0]
   \<and> specCandidates windowsBinHost ''oxlint'' [''/a'', ''/b'']
       = [''/a/.bin/oxlint'', ''/a/.bin/oxlint.exe'', ''/b/.bin/oxlint'', ''/b/.bin/oxlint.exe'']
   \<and> fst (searchNodeModulesDefaultBinPath windowsBinHost [2, 3, 1, 0] ''oxlint''
            [''/a'', ''/b'']) = Some ''/a/.bin/oxlint.exe''"
proof -
  have cands: "specCandidates windowsBinHost ''oxlint'' [''/a'', ''/b'']
       = [''/a/.bin/oxlint'', ''/a/.bin/oxlint.exe'', ''/b/.bin/oxlint'', ''/b/.bin/oxlint.exe'']"
    by (simp add: windowsBinHost_def baseHost_def joinSlash_def)
  have order: "completionOrder (length (specCandidates windowsBinHost ''oxlint'' [''/a'', ''/b'']))
     [2, 3, 1, 0]"
    unfolding cands completionOrder_def by auto
  from probe_first_in_caller_order [OF order] have
    "fst (searchNodeModulesDefaultBinPath windowsBinHost [2, 3, 1, 0] ''oxlint''
            [''/a'', ''/b'']) = Some ''/a/.bin/oxlint.exe''"
    unfolding cands by (simp add: windowsBinHost_def baseHost_def)
  with order cands show ?thesis by simp
qed

section \<open>The memo of the manifest index\<close>

lemma subsequentCalls_populated:
  "subsequentCalls hs (Some pending) = (replicate (length hs) pending, Some pending, [])"
  by (induction hs) (simp_all add: getWorkspacePackageJsonNodeModules_def)

lemma scanWorkspace_spec:
  "findFiles h = Fulfilled files \<Longrightarrow> scanWorkspace h = Fulfilled (specDependencyDirs h files)"
proof -
  have "map (\<lambda>fsPath. join h [dirname h fsPath, ''node_modules'']) files
      = specDependencyDirs h files"
    by (induction files) simp_all
  then show "findFiles h = Fulfilled files
      \<Longrightarrow> scanWorkspace h = Fulfilled (specDependencyDirs h files)"
    by (simp add: scanWorkspace_def)
qed

lemma specDependencyDirs_complete:
  "manifest \<in> set files
     \<Longrightarrow> join h [dirname h manifest, ''node_modules''] \<in> set (specDependencyDirs h files)"
  by (induction files) auto

text \<open>
  Claim C6. Let the search find the manifests \<open>files\<close> in the workspace \<open>h\<close>. The first
  call scans and fills the memo with their \<^verbatim>\<open>node_modules\<close> directories. Every later
  call, in whatever states \<open>hs\<close> the workspace is by then, returns that same result and
  does not call \<^verbatim>\<open>findFiles\<close>; this holds of any promise the memo holds. Clearing
  resets the memo to uninitialized whatever it held, and the call after that, in a
  workspace \<open>h'\<close> where the search finds \<open>files'\<close>, scans again and returns the
  directory of every manifest of \<open>files'\<close>.
\<close>

theorem manifest_index_memoized:
  assumes "findFiles h = Fulfilled files" and "findFiles h' = Fulfilled files'"
  shows "getWorkspacePackageJsonNodeModules h None
      = (Fulfilled (specDependencyDirs h files),
         Some (Fulfilled (specDependencyDirs h files)), [FindFiles])
   \<and> subsequentCalls hs (fst (snd (getWorkspacePackageJsonNodeModules h None)))
      = (replicate (length hs) (Fulfilled (specDependencyDirs h files)),
         Some (Fulfilled (specDependencyDirs h files)), [])
   \<and> subsequentCalls hs (Some pending) = (replicate (length hs) pending, Some pending, [])
   \<and> clearWorkspacePackageJsonNodeModulesCache cached = None
   \<and> getWorkspacePackageJsonNodeModules h' (clearWorkspacePackageJsonNodeModulesCache cached)
      = (Fulfilled (specDependencyDirs h' files'),
         Some (Fulfilled (specDependencyDirs h' files')), [FindFiles])
   \<and> (\<forall>manifest\<in>set files'.
         join h' [dirname h' manifest, ''node_modules'']
           \<in> set (specDependencyDirs h' files'))"
  using assms
  by (simp add: subsequentCalls_populated getWorkspacePackageJsonNodeModules_def
      clearWorkspacePackageJsonNodeModulesCache_def scanWorkspace_spec
      specDependencyDirs_complete)

text \<open>
  The memo is filled while \<^verbatim>\<open>/ws/package.json\<close> is the only manifest. The manifest of
  \<^verbatim>\<open>/ws/packages/app\<close> appears afterwards: the next call still returns the first
  result, and the call after clearing returns both directories.
\<close>

theorem manifest_index_memoized_witness:
  "findFiles singleManifestHost = Fulfilled [''/ws/package.json'']
   \<and> findFiles monorepoHost = Fulfilled [''/ws/package.json'', ''/ws/packages/app/package.json'']
   \<and> getWorkspacePackageJsonNodeModules singleManifestHost None
       = (Fulfilled [''/ws/node_modules''], Some (Fulfilled [''/ws/node_modules'']),
          [FindFiles])
   \<and> subsequentCalls [monorepoHost]
         (fst (snd (getWorkspacePackageJsonNodeModules singleManifestHost None)))
       = ([Fulfilled [''/ws/node_modules'']], Some (Fulfilled [''/ws/node_modules'']), [])
   \<and> getWorkspacePackageJsonNodeModules monorepoHost
         (clearWorkspacePackageJsonNodeModulesCache (Some (Fulfilled [''/ws/node_modules''])))
       = (Fulfilled [''/ws/node_modules'', ''/ws/packages/app/node_modules''],
          Some (Fulfilled [''/ws/node_modules'', ''/ws/packages/app/node_modules'']),
          [FindFiles])"
proof -
  have before: "findFiles singleManifestHost = Fulfilled [''/ws/package.json'']"
    by (simp add: singleManifestHost_def monorepoHost_def baseHost_def)
  have after: "findFiles monorepoHost
      = Fulfilled [''/ws/package.json'', ''/ws/packages/app/package.json'']"
    by (simp add: monorepoHost_def baseHost_def)
  have dirs: "specDependencyDirs singleManifestHost [''/ws/package.json'']
        = [''/ws/node_modules'']"
      "specDependencyDirs monorepoHost [''/ws/package.json'', ''/ws/packages/app/package.json'']
        = [''/ws/node_modules'', ''/ws/packages/app/node_modules'']"
    by (simp_all add: singleManifestHost_def monorepoHost_def baseHost_def parentDir_def
        joinSlash_def)
  note memo = manifest_index_memoized [OF before after, of "[monorepoHost]"
      "Fulfilled []" "Some (Fulfilled [''/ws/node_modules''])", unfolded dirs]
  have stale: "subsequentCalls [monorepoHost]
         (fst (snd (getWorkspacePackageJsonNodeModules singleManifestHost None)))
       = ([Fulfilled [''/ws/node_modules'']], Some (Fulfilled [''/ws/node_modules'']), [])"
    using memo [THEN conjunct2, THEN conjunct1] by (simp del: subsequentCalls.simps)
  from before after memo [THEN conjunct1] stale
    memo [THEN conjunct2, THEN conjunct2, THEN conjunct2, THEN conjunct2, THEN conjunct1]
  show ?thesis by (intro conjI)
qed

section \<open>The settings locator\<close>

text \<open>
  Claim C10. In an untrusted workspace \<^verbatim>\<open>searchSettingsBin\<close> returns nothing and makes
  no call at all: the validator is not consulted and no path is checked.
\<close>

theorem untrusted_workspace_gate:
  "\<not> isTrusted h \<Longrightarrow> searchSettingsBin h settingsBinary = (None, [])"
  by (simp add: searchSettingsBin_def)

theorem untrusted_workspace_gate_witness:
  "\<not> isTrusted untrustedHost
   \<and> validateSafeBinaryPath untrustedHost ''/usr/bin/oxlint''
   \<and> stat untrustedHost ''/usr/bin/oxlint''
   \<and> searchSettingsBin untrustedHost ''/usr/bin/oxlint'' = (None, [])"
  using untrusted_workspace_gate [of untrustedHost "''/usr/bin/oxlint''"]
  by (simp add: untrustedHost_def baseHost_def)

section \<open>The project and the global locator\<close>

lemma parentDir_shorter: "parentDir p = ''/'' \<or> length (parentDir p) < length p"
proof -
  have "length (drop 1 (dropWhile (\<lambda>c. c \<noteq> CHR ''/'') (rev p))) \<le> length p - 1"
    using length_dropWhile_le [of "\<lambda>c. c \<noteq> CHR ''/''" "rev p"] by simp
  moreover have "p = [] \<Longrightarrow> parentDir p = ''/''" by (simp add: parentDir_def)
  ultimately show ?thesis by (cases "p = []") (auto simp add: parentDir_def Let_def)
qed

lemma parentDir_root: "parentDir ''/'' = ''/''"
  by (simp add: parentDir_def)

lemma parentDir_reaches_root: "\<exists>n. (parentDir ^^ n) p = ''/''"
proof (induction p rule: length_induct)
  case (1 p)
  from parentDir_shorter [of p] show ?case
  proof
    assume "parentDir p = ''/''"
    then have "(parentDir ^^ 1) p = ''/''" by simp
    then show ?thesis by blast
  next
    assume "length (parentDir p) < length p"
    with 1 obtain n where "(parentDir ^^ n) (parentDir p) = ''/''" by blast
    then have "(parentDir ^^ Suc n) p = ''/''" by (simp add: funpow_swap1)
    then show ?thesis by blast
  qed
qed

lemma monorepoHost_reaches_root: "dirnameReachesRoot monorepoHost"
  unfolding dirnameReachesRoot_def
proof
  fix p
  obtain n where "(parentDir ^^ n) p = ''/''" using parentDir_reaches_root by blast
  then have "isRoot monorepoHost ((dirname monorepoHost ^^ n) p)"
    by (simp add: isRoot_def monorepoHost_def baseHost_def parentDir_root)
  then show "\<exists>n. isRoot monorepoHost ((dirname monorepoHost ^^ n) p)" by blast
qed

lemma walkUp_total:
  assumes "dirnameReachesRoot h"
  shows "\<exists>r. walkUp h d b = Some r"
proof -
  from assms obtain n where "isRoot h ((dirname h ^^ n) d)"
    unfolding dirnameReachesRoot_def by blast
  then show ?thesis
  proof (induction n arbitrary: d)
    case 0
    then show ?case by (simp add: walkUp_root)
  next
    case (Suc n)
    show ?case
    proof (cases "isRoot h d")
      case True
      then show ?thesis by (simp add: walkUp_root)
    next
      case False
      show ?thesis
      proof (cases "manifestAt h d")
        case None
        from Suc.prems have "isRoot h ((dirname h ^^ n) (dirname h d))"
          by (simp add: funpow_swap1)
        then have "\<exists>r. walkUp h (dirname h d) b = Some r" by (rule Suc.IH)
        with False None show ?thesis by (simp add: walkUp_skip)
      next
        case (Some raw)
        with False show ?thesis by (simp add: walkUp_found)
      qed
    qed
  qed
qed

lemma resolveFromPackage_total:
  "dirnameReachesRoot h \<Longrightarrow> \<exists>r. resolveFromPackage h b paths = Some r"
  using walkUp_total [of h]
  by (simp add: resolveFromPackage_def replaceTargetFromMainToBin_def split: option.splits)

lemma resolveFromPackage_error:
  assumes "dirnameReachesRoot h" and "\<forall>p. resolveFromPackage h b paths \<noteq> Some (Inr p)"
  shows "\<exists>e. resolveFromPackage h b paths = Some (Inl e)"
proof -
  from assms(1) obtain r where r: "resolveFromPackage h b paths = Some r"
    using resolveFromPackage_total by blast
  with assms(2) show ?thesis by (cases r) auto
qed



lemma project_tier3:
  assumes "resolveFromPackage h b (workspaceRoots h) = Some (Inl e)"
      and "completionOrder (length (specCandidates h b (workspaceNodeModules h))) order2"
      and "fst (getWorkspacePackageJsonNodeModules h cached) = Fulfilled dirs"
      and "completionOrder (length (specCandidates h b dirs)) order3"
      and "\<not> truthy (specProbe h b (workspaceNodeModules h))"
  shows "searchProjectNodeModulesBin h order2 order3 cached b
     = Some (Inr (specProbe h b dirs),
         fst (snd (getWorkspacePackageJsonNodeModules h cached)),
         RequireResolve b (workspaceRoots h)
           # map Stat (specCandidates h b (workspaceNodeModules h))
           @ snd (snd (getWorkspacePackageJsonNodeModules h cached))
           @ map Stat (specCandidates h b dirs))"
proof -
  obtain pending cached' scan where
    g: "getWorkspacePackageJsonNodeModules h cached = (pending, cached', scan)"
    by (cases "getWorkspacePackageJsonNodeModules h cached") auto
  with assms(3) have "pending = Fulfilled dirs" by simp
  with assms(1,2,4,5) g show ?thesis
    by (simp add: searchProjectNodeModulesBin_def probe_result)
qed

lemma project_tier3_rejected:
  assumes "resolveFromPackage h b (workspaceRoots h) = Some (Inl e)"
      and "completionOrder (length (specCandidates h b (workspaceNodeModules h))) order2"
      and "fst (getWorkspacePackageJsonNodeModules h cached) = Rejected"
      and "\<not> truthy (specProbe h b (workspaceNodeModules h))"
  shows "searchProjectNodeModulesBin h order2 order3 cached b
     = Some (Inl SearchFailed,
         fst (snd (getWorkspacePackageJsonNodeModules h cached)),
         RequireResolve b (workspaceRoots h)
           # map Stat (specCandidates h b (workspaceNodeModules h))
           @ snd (snd (getWorkspacePackageJsonNodeModules h cached)))"
proof -
  obtain pending cached' scan where
    g: "getWorkspacePackageJsonNodeModules h cached = (pending, cached', scan)"
    by (cases "getWorkspacePackageJsonNodeModules h cached") auto
  with assms(3) have "pending = Rejected" by simp
  with assms(1,2,4) g show ?thesis
    by (simp add: searchProjectNodeModulesBin_def probe_result)
qed

text \<open>Both locators return or throw: the walk of the first tier ends.\<close>

lemma project_total:
  assumes "dirnameReachesRoot h"
  shows "\<exists>r. searchProjectNodeModulesBin h order2 order3 cached b = Some r"
proof -
  from assms obtain t where t: "resolveFromPackage h b (workspaceRoots h) = Some t"
    using resolveFromPackage_total by blast
  show ?thesis
  proof (cases t)
    case (Inl e)
    with t show ?thesis
      by (simp add: searchProjectNodeModulesBin_def split_beta Let_def split: promise.splits)
  next
    case (Inr p)
    with t show ?thesis by (simp add: searchProjectNodeModulesBin_def)
  qed
qed

lemma global_total:
  assumes "dirnameReachesRoot h"
  shows "\<exists>r. searchGlobalNodeModulesBin h orderG b = Some r"
proof -
  from assms obtain t where t: "resolveFromPackage h b (globalNodeModulesPaths h) = Some t"
    using resolveFromPackage_total by blast
  show ?thesis
  proof (cases t)
    case (Inl e)
    with t show ?thesis
      by (simp add: searchGlobalNodeModulesBin_def split_beta Let_def)
  next
    case (Inr p)
    with t show ?thesis by (simp add: searchGlobalNodeModulesBin_def Let_def)
  qed
qed

lemma specProbe_none:
  "\<forall>c\<in>set (specCandidates h b dirs). \<not> stat h c \<Longrightarrow> specProbe h b dirs = None"
  by (simp add: specProbe_def find_None_iff)

lemma statSettingsBinary_unfold:
  "statSettingsBinary h a =
     (if stat h (withoutExe h a) then (Some (withoutExe h a), [Stat (withoutExe h a)])
      else if platform h = Win32
      then (if endsWith a ''.exe'' then (None, [Stat a, Stat a])
            else (if stat h (a @ ''.exe'') then Some (a @ ''.exe'') else None,
                  [Stat a, Stat (a @ ''.exe'')]))
      else (None, [Stat (withoutExe h a)]))"
  by (simp add: statSettingsBinary_def withoutExe_def sliceOff4_def Let_def)

lemma statSettingsBinary_absent:
  assumes "\<forall>p. Stat p \<in> set (snd (statSettingsBinary h a)) \<longrightarrow> \<not> stat h p"
  shows "fst (statSettingsBinary h a) = None"
proof -
  have "stat h (withoutExe h a)
      \<Longrightarrow> Stat (withoutExe h a) \<in> set (snd (statSettingsBinary h a))"
    by (simp add: statSettingsBinary_unfold)
  with assms have first: "\<not> stat h (withoutExe h a)" by blast
  then have "platform h = Win32 \<Longrightarrow> \<not> endsWith a ''.exe''
      \<Longrightarrow> Stat (a @ ''.exe'') \<in> set (snd (statSettingsBinary h a))"
    by (simp add: statSettingsBinary_unfold)
  with assms have "platform h = Win32 \<Longrightarrow> \<not> endsWith a ''.exe'' \<Longrightarrow> \<not> stat h (a @ ''.exe'')"
    by blast
  with first show ?thesis by (simp add: statSettingsBinary_unfold)
qed

lemma searchSettingsBin_unfold:
  "searchSettingsBin h s =
     (if \<not> isTrusted h then (None, [])
      else if \<not> validateSafeBinaryPath h s then (None, [Validate s])
      else case settingsPath h s of
          None \<Rightarrow> (None, [Validate s])
        | Some a \<Rightarrow> (fst (statSettingsBinary h a), Validate s # snd (statSettingsBinary h a)))"
  by (simp add: searchSettingsBin_def settingsPath_def firstWorkspaceFolder_def truthy_def
      split_beta Let_def split: option.splits list.splits)

lemma settings_absent:
  assumes "\<forall>p. Stat p \<in> set (snd (searchSettingsBin h s)) \<longrightarrow> \<not> stat h p"
  shows "fst (searchSettingsBin h s) = None"
proof (cases "settingsPath h s")
  case None
  then show ?thesis by (simp add: searchSettingsBin_unfold)
next
  case (Some a)
  show ?thesis
  proof (cases "isTrusted h \<and> validateSafeBinaryPath h s")
    case True
    with Some have "snd (searchSettingsBin h s) = Validate s # snd (statSettingsBinary h a)"
      by (simp add: searchSettingsBin_unfold)
    with assms have "\<forall>p. Stat p \<in> set (snd (statSettingsBinary h a)) \<longrightarrow> \<not> stat h p"
      by auto
    then have "fst (statSettingsBinary h a) = None" by (rule statSettingsBinary_absent)
    with True Some show ?thesis by (simp add: searchSettingsBin_unfold)
  next
    case False
    then show ?thesis by (auto simp add: searchSettingsBin_unfold)
  qed
qed

text \<open>
  While the search of the editor does not fail, nothing reaches the caller: when the
  first tier produces no path (the module is not found, or the manifest walk raises any
  of its errors) and every existence check that is issued fails, each of the three
  locators returns nothing.
\<close>

lemma locators_absent_when_search_resolves:
  assumes "dirnameReachesRoot h"
      and "\<forall>p. resolveFromPackage h b (workspaceRoots h) \<noteq> Some (Inr p)"
      and "\<forall>p. resolveFromPackage h b (globalNodeModulesPaths h) \<noteq> Some (Inr p)"
      and "completionOrder (length (specCandidates h b (workspaceNodeModules h))) order2"
      and "fst (getWorkspacePackageJsonNodeModules h cached) = Fulfilled dirs"
      and "completionOrder (length (specCandidates h b dirs)) order3"
      and "completionOrder (length (specCandidates h b (globalNodeModulesPaths h))) orderG"
      and "\<forall>c\<in>set (specCandidates h b (workspaceNodeModules h)). \<not> stat h c"
      and "\<forall>c\<in>set (specCandidates h b dirs). \<not> stat h c"
      and "\<forall>c\<in>set (specCandidates h b (globalNodeModulesPaths h)). \<not> stat h c"
      and "\<forall>p. Stat p \<in> set (snd (searchSettingsBin h s)) \<longrightarrow> \<not> stat h p"
  shows "(\<exists>cached' calls.
            searchProjectNodeModulesBin h order2 order3 cached b
              = Some (Inr None, cached', calls))
     \<and> (\<exists>calls. searchGlobalNodeModulesBin h orderG b = Some (None, calls))
     \<and> fst (searchSettingsBin h s) = None"
proof (intro conjI)
  from assms(1,2) obtain e where e: "resolveFromPackage h b (workspaceRoots h) = Some (Inl e)"
    using resolveFromPackage_error by blast
  from assms(8) have "\<not> truthy (specProbe h b (workspaceNodeModules h))"
    by (simp add: specProbe_none truthy_def)
  from project_tier3 [OF e assms(4,5,6) this] assms(9)
  show "\<exists>cached' calls.
          searchProjectNodeModulesBin h order2 order3 cached b
            = Some (Inr None, cached', calls)"
    by (simp add: specProbe_none)
next
  from assms(1,3) obtain e where
    e: "resolveFromPackage h b (globalNodeModulesPaths h) = Some (Inl e)"
    using resolveFromPackage_error by blast
  with assms(7,10) show "\<exists>calls. searchGlobalNodeModulesBin h orderG b = Some (None, calls)"
    by (simp add: searchGlobalNodeModulesBin_def Let_def probe_result specProbe_none)
next
  from assms(11) show "fst (searchSettingsBin h s) = None" by (rule settings_absent)
qed

text \<open>The example workspace, evaluated once.\<close>

lemmas monorepo_defs = monorepoHost_def baseHost_def joinSlash_def parentDir_def







lemma order1: "completionOrder (Suc 0) [0]"
  by (simp add: completionOrder_def)

lemma order2: "completionOrder (Suc (Suc 0)) [Suc 0, 0]"
  unfolding completionOrder_def by auto


text \<open>
  Claim C4, at the input where the code departs from it. The package \<^verbatim>\<open>typescript\<close>
  resolves, but its manifest has no entry of that name; this error is absorbed, and so
  is the failing existence check of the second tier. The memo is uninitialized and the
  search of the editor fails: the rejected promise is awaited outside every \<^verbatim>\<open>try\<close>,
  and the project locator throws instead of returning nothing.
\<close>

theorem search_failure_reaches_caller:
  "resolveFromPackage searchFailsHost ''typescript'' (workspaceRoots searchFailsHost)
     = Some (Inl (BinEntryNotFound ''typescript''))
   \<and> \<not> stat searchFailsHost ''/ws/node_modules/.bin/typescript''
   \<and> findFiles searchFailsHost = Rejected
   \<and> searchProjectNodeModulesBin searchFailsHost [0] [] None ''typescript''
     = Some (Inl SearchFailed, Some Rejected,
         [RequireResolve ''typescript'' [''/ws''],
          Stat ''/ws/node_modules/.bin/typescript'', FindFiles])"
proof -
  have roots: "workspaceRoots searchFailsHost = [''/ws'']"
    by (simp add: workspaceRoots_def searchFailsHost_def monorepoHost_def baseHost_def)
  have tier1: "resolveFromPackage searchFailsHost ''typescript'' [''/ws'']
      = Some (Inl (BinEntryNotFound ''typescript''))"
    by (simp add: resolveFromPackage_def replaceTargetFromMainToBin_def walkUp.simps
        readManifest_def binOf_def binEntry_def ownProperty_def truthyValue_def
        searchFailsHost_def objectPrototype_def monorepo_defs)
  have cands: "specCandidates searchFailsHost ''typescript''
      (workspaceNodeModules searchFailsHost) = [''/ws/node_modules/.bin/typescript'']"
    by (simp add: workspaceNodeModules_def roots) (simp add: searchFailsHost_def monorepo_defs)
  have missing: "\<not> stat searchFailsHost ''/ws/node_modules/.bin/typescript''"
    by (simp add: searchFailsHost_def monorepo_defs)
  have search: "findFiles searchFailsHost = Rejected"
    by (simp add: searchFailsHost_def)
  have scan: "getWorkspacePackageJsonNodeModules searchFailsHost None
      = (Rejected, Some Rejected, [FindFiles])"
    by (simp add: getWorkspacePackageJsonNodeModules_def scanWorkspace_def search)
  have "searchProjectNodeModulesBin searchFailsHost [0] [] None ''typescript''
      = Some (Inl SearchFailed,
          fst (snd (getWorkspacePackageJsonNodeModules searchFailsHost None)),
          RequireResolve ''typescript'' (workspaceRoots searchFailsHost)
            # map Stat (specCandidates searchFailsHost ''typescript''
                (workspaceNodeModules searchFailsHost))
            @ snd (snd (getWorkspacePackageJsonNodeModules searchFailsHost None)))"
    by (rule project_tier3_rejected [where e = "BinEntryNotFound ''typescript''"])
       (simp_all add: roots tier1 cands order1 scan specProbe_def truthy_def missing)
  with tier1 missing search show ?thesis
    by (simp add: roots cands scan)
qed



section \<open>The settings locator in a trusted workspace\<close>

text \<open>
  Claim C9, as amended. In a trusted workspace, a path that the validator rejects gives
  nothing, and nothing but the validator is called. For an accepted path: a path that is
  not absolute is resolved against the first workspace root, and the result is nothing
  when there is no such root; off Windows a trailing \<^verbatim>\<open>.exe\<close> is stripped; the
  resulting path is returned when it exists; on Windows only, when it does not exist and
  does not already end in \<^verbatim>\<open>.exe\<close>, the path with \<^verbatim>\<open>.exe\<close> appended is returned when
  that one exists; in every other case the result is nothing.
\<close>

theorem settings_locator:
  assumes "isTrusted h"
  shows "(\<not> validateSafeBinaryPath h s \<longrightarrow> searchSettingsBin h s = (None, [Validate s]))
     \<and> (validateSafeBinaryPath h s \<longrightarrow>
          fst (searchSettingsBin h s) =
            (case settingsPath h s of
               None \<Rightarrow> None
             | Some a \<Rightarrow>
                 if stat h (withoutExe h a) then Some (withoutExe h a)
                 else if platform h = Win32 \<and> \<not> endsWith a ''.exe'' \<and> stat h (a @ ''.exe'')
                 then Some (a @ ''.exe'')
                 else None))"
  using assms
  by (simp add: searchSettingsBin_unfold statSettingsBinary_unfold split: option.splits)

text \<open>
  Off Windows the relative setting \<^verbatim>\<open>node_modules/.bin/biome.exe\<close> is resolved against
  \<^verbatim>\<open>/ws\<close> and found without its suffix.
\<close>

theorem settings_locator_witness:
  "isTrusted monorepoHost
   \<and> validateSafeBinaryPath monorepoHost ''node_modules/.bin/biome.exe''
   \<and> settingsPath monorepoHost ''node_modules/.bin/biome.exe''
       = Some ''/ws/node_modules/.bin/biome.exe''
   \<and> fst (searchSettingsBin monorepoHost ''node_modules/.bin/biome.exe'')
       = Some ''/ws/node_modules/.bin/biome''"
proof -
  have trusted: "isTrusted monorepoHost" by (simp add: monorepoHost_def baseHost_def)
  have valid: "validateSafeBinaryPath monorepoHost ''node_modules/.bin/biome.exe''"
    by (simp add: monorepoHost_def baseHost_def)
  have path: "settingsPath monorepoHost ''node_modules/.bin/biome.exe''
       = Some ''/ws/node_modules/.bin/biome.exe''"
    by (simp add: settingsPath_def monorepoHost_def baseHost_def joinSlash_def)
  have stripped: "withoutExe monorepoHost ''/ws/node_modules/.bin/biome.exe''
       = ''/ws/node_modules/.bin/biome''"
    by (simp add: withoutExe_def endsWith_def monorepoHost_def baseHost_def)
  from settings_locator [OF trusted, THEN conjunct2, THEN mp, OF valid]
  have "fst (searchSettingsBin monorepoHost ''node_modules/.bin/biome.exe'')
       = Some ''/ws/node_modules/.bin/biome''"
    by (simp add: path stripped) (simp add: monorepoHost_def baseHost_def)
  with trusted valid path show ?thesis by simp
qed

text \<open>
  The claim as first stated fails on Windows for a path that already ends in \<^verbatim>\<open>.exe\<close>:
  the path itself does not exist, the path with \<^verbatim>\<open>.exe\<close> appended does, and the
  locator checks the unchanged path a second time and returns nothing. It also fails in
  an untrusted workspace, where an accepted path that exists is not returned.
\<close>

theorem exe_not_appended_twice_counterexample:
  "platform windowsExeHost = Win32
   \<and> isTrusted windowsExeHost
   \<and> validateSafeBinaryPath windowsExeHost ''C:/tools/oxlint.exe''
   \<and> isAbsolute windowsExeHost ''C:/tools/oxlint.exe''
   \<and> \<not> stat windowsExeHost ''C:/tools/oxlint.exe''
   \<and> stat windowsExeHost (''C:/tools/oxlint.exe'' @ ''.exe'')
   \<and> searchSettingsBin windowsExeHost ''C:/tools/oxlint.exe''
       = (None, [Validate ''C:/tools/oxlint.exe'', Stat ''C:/tools/oxlint.exe'',
                 Stat ''C:/tools/oxlint.exe''])
   \<and> validateSafeBinaryPath untrustedHost ''/opt/oxlint''
   \<and> isAbsolute untrustedHost ''/opt/oxlint''
   \<and> stat untrustedHost ''/opt/oxlint''
   \<and> fst (searchSettingsBin untrustedHost ''/opt/oxlint'') = None"
  by (simp add: searchSettingsBin_def statSettingsBinary_def endsWith_def Let_def
      windowsExeHost_def untrustedHost_def baseHost_def)

section \<open>The runtime and the launch descriptor\<close>

lemma splitLines_nonempty: "splitLines s \<noteq> []"
  by (induction s) (simp_all split: list.splits)

lemma splitLines_line:
  "CHR 0x0A \<notin> set line \<Longrightarrow>
   splitLines (line @ rest) = (line @ hd (splitLines rest)) # tl (splitLines rest)"
proof (induction line)
  case Nil
  show ?case using splitLines_nonempty [of rest] by simp
next
  case (Cons c line)
  then show ?case by auto
qed

lemma splitLines_joinLines:
  "lines \<noteq> [] \<Longrightarrow> \<forall>line\<in>set lines. CHR 0x0A \<notin> set line
     \<Longrightarrow> splitLines (joinLines lines) = lines"
proof (induction lines rule: joinLines.induct)
  case 1
  then show ?case by simp
next
  case (2 line)
  then show ?case using splitLines_line [of line "[]"] by simp
next
  case (3 line "next" lines)
  then show ?case
    using splitLines_line [of line "CHR 0x0A # joinLines (next # lines)"] by simp
qed

lemma lastNonEmptyLine_joinLines:
  assumes "\<forall>line\<in>set (before @ l # after). CHR 0x0A \<notin> set line"
      and "l \<noteq> []" and "\<forall>line\<in>set after. line = []"
  shows "lastNonEmptyLine (joinLines (before @ l # after)) = Some l"
proof -
  have "splitLines (joinLines (before @ l # after)) = before @ l # after"
    using assms(1) by (intro splitLines_joinLines) simp_all
  moreover have "filter (\<lambda>line. line \<noteq> []) (before @ l # after)
      = filter (\<lambda>line. line \<noteq> []) before @ [l]"
    using assms(2,3) by (simp add: filter_empty_conv)
  ultimately show ?thesis by (simp add: lastNonEmptyLine_def)
qed

text \<open>
  Claim C7. No explicit runtime is given and the look-up on \<^verbatim>\<open>PATH\<close> fails. When the
  login shell succeeds and its output consists of the lines \<open>before\<close>, the non-empty
  line \<open>l\<close> and then empty lines only, the resolved runtime is exactly \<open>l\<close>, and it is the
  command of a script's descriptor. When the login shell is not known or fails as well,
  the resolved runtime is the executable of the hosting process, and for a script the
  descriptor's environment sets \<^verbatim>\<open>ELECTRON_RUN_AS_NODE\<close> to \<^verbatim>\<open>1\<close>.
\<close>

theorem runtime_resolution_tiers:
  assumes "\<not> spawnSucceeded (pathLookup pe)"
  shows "(SHELL pe = Some sh \<and> loginShellLookup pe sh = Some result
          \<and> \<not> error result \<and> status result = Some 0
          \<and> stdout result = joinLines (before @ l # after)
          \<and> (\<forall>line\<in>set (before @ l # after). CHR 0x0A \<notin> set line)
          \<and> l \<noteq> [] \<and> (\<forall>line\<in>set after. line = []) \<longrightarrow>
        resolveRuntimePath pe None = (l, False)
        \<and> (isScript targetPath \<longrightarrow> command (runExecutable pe targetPath tool None) = l))
     \<and> ((case SHELL pe of None \<Rightarrow> True
          | Some sh' \<Rightarrow> \<not> spawnSucceeded (loginShellLookup pe sh')) \<longrightarrow>
        resolveRuntimePath pe None = (execPath pe, True)
        \<and> (isScript targetPath \<longrightarrow>
             command (runExecutable pe targetPath tool None) = execPath pe
             \<and> env (runExecutable pe targetPath tool None) ''ELECTRON_RUN_AS_NODE'' = Some ''1''))"
proof (intro conjI impI)
  assume a: "SHELL pe = Some sh \<and> loginShellLookup pe sh = Some result
          \<and> \<not> error result \<and> status result = Some 0
          \<and> stdout result = joinLines (before @ l # after)
          \<and> (\<forall>line\<in>set (before @ l # after). CHR 0x0A \<notin> set line)
          \<and> l \<noteq> [] \<and> (\<forall>line\<in>set after. line = [])"
  then have "lastNonEmptyLine (joinLines (before @ l # after)) = Some l"
    by (intro lastNonEmptyLine_joinLines) blast+
  with a assms show r: "resolveRuntimePath pe None = (l, False)"
    by (simp add: resolveRuntimePath_def loginShellRuntime_def)
  assume "isScript targetPath"
  with r show "command (runExecutable pe targetPath tool None) = l"
    by (simp add: runExecutable_def)
next
  assume a: "case SHELL pe of None \<Rightarrow> True
          | Some sh' \<Rightarrow> \<not> spawnSucceeded (loginShellLookup pe sh')"
  then have "loginShellRuntime pe = None"
    by (auto simp add: loginShellRuntime_def spawnSucceeded_def split: option.splits)
  with assms show r: "resolveRuntimePath pe None = (execPath pe, True)"
    by (simp add: resolveRuntimePath_def)
  assume s: "isScript targetPath"
  with r show "command (runExecutable pe targetPath tool None) = execPath pe"
    by (simp add: runExecutable_def)
  from r s show "env (runExecutable pe targetPath tool None) ''ELECTRON_RUN_AS_NODE'' = Some ''1''"
    by (simp add: runExecutable_def)
qed

lemmas env_defs = zshEnv_def noRuntimeEnv_def windowsEnv_def

text \<open>The two unit tests of the fallback tiers.\<close>

theorem runtime_resolution_tiers_witness:
  "\<not> spawnSucceeded (pathLookup zshEnv)
   \<and> stdout (the (loginShellLookup zshEnv ''/bin/zsh''))
       = joinLines [''noise'', ''/opt/homebrew/bin/node'', []]
   \<and> resolveRuntimePath zshEnv None = (''/opt/homebrew/bin/node'', False)
   \<and> command (runExecutable zshEnv ''/path/to/server.js'' ''oxlint'' None)
       = ''/opt/homebrew/bin/node''
   \<and> \<not> spawnSucceeded (pathLookup noRuntimeEnv)
   \<and> \<not> spawnSucceeded (loginShellLookup noRuntimeEnv ''/bin/zsh'')
   \<and> command (runExecutable noRuntimeEnv ''/path/to/server.js'' ''oxlint'' None)
       = execPath noRuntimeEnv
   \<and> env (runExecutable noRuntimeEnv ''/path/to/server.js'' ''oxlint'' None)
         ''ELECTRON_RUN_AS_NODE'' = Some ''1''"
proof -
  have z: "\<not> spawnSucceeded (pathLookup zshEnv)"
    by (simp add: spawnSucceeded_def zshEnv_def)
  have n: "\<not> spawnSucceeded (pathLookup noRuntimeEnv)"
    by (simp add: spawnSucceeded_def env_defs)
  have script: "isScript ''/path/to/server.js''"
    by (simp add: isScript_def endsWith_def)
  have out: "stdout (the (loginShellLookup zshEnv ''/bin/zsh''))
       = joinLines [''noise'', ''/opt/homebrew/bin/node'', []]"
    by (simp add: zshEnv_def)
  have login: "SHELL zshEnv = Some ''/bin/zsh''
      \<and> loginShellLookup zshEnv ''/bin/zsh'' = Some (the (loginShellLookup zshEnv ''/bin/zsh''))
      \<and> \<not> error (the (loginShellLookup zshEnv ''/bin/zsh''))
      \<and> status (the (loginShellLookup zshEnv ''/bin/zsh'')) = Some 0
      \<and> stdout (the (loginShellLookup zshEnv ''/bin/zsh''))
          = joinLines ([''noise''] @ ''/opt/homebrew/bin/node'' # [[]])
      \<and> (\<forall>line\<in>set ([''noise''] @ ''/opt/homebrew/bin/node'' # [[]]). CHR 0x0A \<notin> set line)
      \<and> ''/opt/homebrew/bin/node'' \<noteq> [] \<and> (\<forall>line\<in>set [[]]. line = [])"
    by (simp add: zshEnv_def)
  have failed: "case SHELL noRuntimeEnv of None \<Rightarrow> True
      | Some sh' \<Rightarrow> \<not> spawnSucceeded (loginShellLookup noRuntimeEnv sh')"
    by (simp add: spawnSucceeded_def env_defs)
  note first = runtime_resolution_tiers [OF z, THEN conjunct1, THEN mp, OF login]
  note second = runtime_resolution_tiers [OF n, THEN conjunct2, THEN mp, OF failed]
  from first [THEN conjunct1] first [THEN conjunct2, THEN mp, OF script]
       second [THEN conjunct2, THEN mp, OF script] z n out
  show ?thesis
    by (simp add: spawnSucceeded_def env_defs)
qed

text \<open>
  Claim C8. For a path ending in \<^verbatim>\<open>.js\<close>, \<^verbatim>\<open>.cjs\<close> or \<^verbatim>\<open>.mjs\<close> the command is the
  resolved runtime and the arguments are the path followed by \<^verbatim>\<open>--lsp\<close>. For any other
  path off Windows the command is the path as it is, the only argument is \<^verbatim>\<open>--lsp\<close> and
  no shell is used; on Windows the command is the path between double quotes and the
  shell is used.
\<close>

theorem launch_descriptor_shape:
  "(isScript targetPath \<longrightarrow>
      command (runExecutable pe targetPath tool nodePath) = fst (resolveRuntimePath pe nodePath)
      \<and> args (runExecutable pe targetPath tool nodePath) = [targetPath, ''--lsp''])
   \<and> (\<not> isScript targetPath \<and> processPlatform pe \<noteq> Win32 \<longrightarrow>
      command (runExecutable pe targetPath tool nodePath) = targetPath
      \<and> args (runExecutable pe targetPath tool nodePath) = [''--lsp'']
      \<and> \<not> shell (runExecutable pe targetPath tool nodePath))
   \<and> (\<not> isScript targetPath \<and> processPlatform pe = Win32 \<longrightarrow>
      command (runExecutable pe targetPath tool nodePath)
        = [CHR 0x22] @ targetPath @ [CHR 0x22]
      \<and> args (runExecutable pe targetPath tool nodePath) = [''--lsp'']
      \<and> shell (runExecutable pe targetPath tool nodePath))"
  by (simp add: runExecutable_def split_beta)

theorem launch_descriptor_shape_witness:
  "isScript ''/path/to/server.mjs''
   \<and> command (runExecutable zshEnv ''/path/to/server.mjs'' ''oxlint'' (Some ''/custom/node/bin/node''))
       = ''/custom/node/bin/node''
   \<and> args (runExecutable zshEnv ''/path/to/server.mjs'' ''oxlint'' (Some ''/custom/node/bin/node''))
       = [''/path/to/server.mjs'', ''--lsp'']
   \<and> \<not> isScript ''/path/to/oxc-language-server''
   \<and> command (runExecutable zshEnv ''/path/to/oxc-language-server'' ''oxlint'' None)
       = ''/path/to/oxc-language-server''
   \<and> \<not> shell (runExecutable zshEnv ''/path/to/oxc-language-server'' ''oxlint'' None)
   \<and> command (runExecutable windowsEnv ''/path/to/oxc-language-server'' ''oxlint'' None)
       = [CHR 0x22] @ ''/path/to/oxc-language-server'' @ [CHR 0x22]
   \<and> shell (runExecutable windowsEnv ''/path/to/oxc-language-server'' ''oxlint'' None)"
proof -
  have script: "isScript ''/path/to/server.mjs''"
    by (simp add: isScript_def endsWith_def)
  have native: "\<not> isScript ''/path/to/oxc-language-server''"
    by (simp add: isScript_def endsWith_def)
  have posix: "\<not> isScript ''/path/to/oxc-language-server'' \<and> processPlatform zshEnv \<noteq> Win32"
    using native by (simp add: zshEnv_def)
  have windows: "\<not> isScript ''/path/to/oxc-language-server'' \<and> processPlatform windowsEnv = Win32"
    using native by (simp add: env_defs)
  from launch_descriptor_shape [THEN conjunct1, THEN mp, OF script,
         of zshEnv "''oxlint''" "Some ''/custom/node/bin/node''"]
       launch_descriptor_shape [THEN conjunct2, THEN conjunct1, THEN mp, OF posix, of "''oxlint''" None]
       launch_descriptor_shape [THEN conjunct2, THEN conjunct2, THEN mp, OF windows, of "''oxlint''" None]
       script native
  show ?thesis
    by (simp add: resolveRuntimePath_def)
qed

end
